theory Spec2Isabelle
  imports Complex_Main
begin

section \<open>Data model of dnstest.py\<close>

text \<open>
  The source file names its functions, variables and labels in Chinese. The theory keeps
  those names in pinyin transliteration; each definition quotes the line range of
  src/dnstest.py it embeds.

  Python floats (latencies in milliseconds, success rates, timeouts in seconds) are
  modelled as rationals: the arithmetic is exact here, rounded to binary64 in the source.
\<close>

text \<open>Exceptions that reach a handler or a caller somewhere in the program.\<close>

datatype error =
    Timeout
  | NXDOMAIN
  | NoAnswer
  | NoNameservers
  | NoResolverConfiguration
  | OtherException string
  | NameError string
  | ValueError string
  | SystemExit int

text \<open>
  The four strings stored under the key whose pinyin is dns_wuran:
  Weiceshi (not tested), Daijiance (pending verification),
  Weiwuran (clean), Yiwuran (polluted).
\<close>

datatype label = Weiceshi | Daijiance | Weiwuran | Yiwuran

text \<open>The code points of each label string, as Python's str comparison sees them.\<close>

fun label_str :: "label \<Rightarrow> nat list" where
  "label_str Weiwuran = [0x672A, 0x6C61, 0x67D3]"
| "label_str Yiwuran = [0x5DF2, 0x6C61, 0x67D3]"
| "label_str Weiceshi = [0x672A, 0x6D4B, 0x8BD5]"
| "label_str Daijiance = [0x5F85, 0x68C0, 0x6D4B]"

subsection \<open>The dnspython resolver object\<close>

text \<open>
  Abridged model of \<^verbatim>\<open>dns.resolver.Resolver\<close> (a library, not part of the repository): the
  attributes the program assigns, and \<open>search\<close> as the representative of what the
  constructor copies from the system's resolver configuration.
\<close>

datatype answer_cache = AnswerCache "((string \<times> string) \<times> string list) list"

record resolver =
  nameservers :: "string list"
  search :: "string list"
  timeout :: rat
  lifetime :: rat
  cache :: "answer_cache option"

text \<open>What \<^verbatim>\<open>/etc/resolv.conf\<close> (or the registry) holds on the machine running the program.\<close>

record resolv_conf =
  conf_nameservers :: "string list"
  conf_search :: "string list"

text \<open>\<^verbatim>\<open>Resolver.reset()\<close>: the library defaults, no name server, no cache.\<close>

definition reset :: resolver where
  "reset = \<lparr>nameservers = [], search = [], timeout = 2, lifetime = 5, cache = None\<rparr>"

text \<open>
  \<^verbatim>\<open>Resolver.read_resolv_conf\<close>: raises when the file cannot be read or names no server.
\<close>

definition read_resolv_conf :: "error + resolv_conf \<Rightarrow> resolver \<Rightarrow> error + resolver" where
  "read_resolv_conf sys r =
     (case sys of
        Inl e \<Rightarrow> Inl e
      | Inr c \<Rightarrow>
          if conf_nameservers c = [] then Inl NoResolverConfiguration
          else Inr (r\<lparr>nameservers := conf_nameservers c, search := conf_search c\<rparr>))"

subsection \<open>The environment and the program state\<close>

text \<open>
  Everything outside the program is a parameter: reading the system resolver configuration
  and the network (\<open>resolve\<close> answers a query with an exception or a list of addresses), both
  of which move the world on, the clock \<^verbatim>\<open>time.perf_counter\<close> in seconds, and \<^verbatim>\<open>ipaddress.ip_address\<close>
  reduced to what the program asks of it: is the string an IPv4 address (Some True), an IPv6
  address (Some False), or neither (None, the ValueError).
\<close>

record 'w env =
  sysconf :: "'w \<Rightarrow> (error + resolv_conf) \<times> 'w"
  resolve :: "resolver \<Rightarrow> string \<Rightarrow> string \<Rightarrow> 'w \<Rightarrow> (error + string list) \<times> 'w"
  perf_counter :: "'w \<Rightarrow> rat"
  ip_address :: "string \<Rightarrow> bool option"

text \<open>
  \<^verbatim>\<open>Resolver(configure=...)\<close>; the keyword defaults to True in the library, so the call
  \<^verbatim>\<open>Resolver()\<close> is \<open>Resolver E True\<close>. Only a configuring call reads the system.
\<close>

definition Resolver :: "'w env \<Rightarrow> bool \<Rightarrow> 'w \<Rightarrow> (error + resolver) \<times> 'w" where
  "Resolver E configure w =
     (if configure then (case sysconf E w of (sys, w1) \<Rightarrow> (read_resolv_conf sys reset, w1))
      else (Inr reset, w))"

text \<open>Library calls in the order the program makes them.\<close>

datatype event =
    NewResolver bool
  | Resolve resolver string string

fun is_query :: "event \<Rightarrow> bool" where
  "is_query (Resolve r d t) = True"
| "is_query (NewResolver c) = False"

definition chaxun_cishu :: "event list \<Rightarrow> nat" where
  "chaxun_cishu tr = length (filter is_query tr)"

text \<open>
  The state one worker sees: the world, the dictionary \<^verbatim>\<open>_thread_local.resolvers\<close>
  (lines 155-168) and the trace of library calls made so far.
\<close>

record 'w state =
  world :: 'w
  resolvers :: "(string \<times> rat) \<rightharpoonup> resolver"
  trace :: "event list"

definition jilu :: "event \<Rightarrow> 'w state \<Rightarrow> 'w state" where
  "jilu ev s = s\<lparr>trace := trace s @ [ev]\<rparr>"

section \<open>IP-ownership lookup (lines 50-74)\<close>

text \<open>
  A database record is the dictionary \<^verbatim>\<open>reader.get(ip)\<close> returns, with its values already
  converted by \<^verbatim>\<open>str\<close>; a reader answers an address with an exception, with nothing, or with
  a record.
\<close>

type_synonym mmdb_record = "(string \<times> string) list"
type_synonym mmdb_reader = "string \<Rightarrow> error + mmdb_record option"

definition lower_char :: "char \<Rightarrow> char" where
  "lower_char c =
     (let n = (of_char c :: nat) in if 65 \<le> n \<and> n \<le> 90 then char_of (n + 32) else c)"

definition lower :: "string \<Rightarrow> string" where
  "lower s = map lower_char s"

text \<open>Python's \<^verbatim>\<open>keyword in text\<close> on strings.\<close>

fun py_in :: "string \<Rightarrow> string \<Rightarrow> bool" where
  "py_in k [] = (k = [])"
| "py_in k (c # cs) = (take (length k) (c # cs) = k \<or> py_in k cs)"

text \<open>Python's \<^verbatim>\<open>' '.join(parts)\<close>.\<close>

fun join_space :: "string list \<Rightarrow> string" where
  "join_space [] = []"
| "join_space [p] = p"
| "join_space (p # q # ps) = p @ '' '' @ join_space (q # ps)"

definition org_fields :: "string list" where
  "org_fields = [''autonomous_system_organization'', ''organization'', ''isp'']"

definition google_keywords :: "string list" where
  "google_keywords =
     [''google'', ''google llc'', ''google cloud'', ''google.com'', ''alphabet'', ''gcp'']"

text \<open>\<^verbatim>\<open>str(response.get(f, '') or '').lower()\<close>\<close>

definition field_text :: "mmdb_record \<Rightarrow> string \<Rightarrow> string" where
  "field_text response f = lower (case map_of response f of None \<Rightarrow> [] | Some v \<Rightarrow> v)"

text \<open>
  Lines 50-74. The argument \<open>reader\<close> is the value of the global \<^verbatim>\<open>_ip_mmdb_reader\<close> once
  the guarded load of lines 54-57 has run: the loaded database, or None when there is no
  database to load. The file system is taken to be the same for the whole run.
\<close>

definition jiancha_google_ip :: "mmdb_reader option \<Rightarrow> string \<Rightarrow> bool" where
  "jiancha_google_ip reader ip =
     (case reader of
        None \<Rightarrow> False
      | Some get \<Rightarrow>
          (case get ip of
             Inl e \<Rightarrow> False
           | Inr None \<Rightarrow> False
           | Inr (Some response) \<Rightarrow>
               if response = [] then False
               else
                 (let org_text = join_space (map (field_text response) org_fields)
                  in list_ex (\<lambda>keyword. py_in keyword org_text) google_keywords)))"

section \<open>Resolver construction\<close>

text \<open>Lines 76-83, chuangjian_ganjing_resolver: a fresh resolver without cache.\<close>

definition chuangjian_ganjing_resolver ::
  "'w env \<Rightarrow> string \<Rightarrow> rat \<Rightarrow> 'w \<Rightarrow> (error + resolver) \<times> 'w" where
  "chuangjian_ganjing_resolver E dns_server tmo w =
     (case Resolver E False w of
        (Inl e, w1) \<Rightarrow> (Inl e, w1)
      | (Inr r, w1) \<Rightarrow>
          (Inr (r\<lparr>nameservers := [dns_server], timeout := tmo, lifetime := tmo,
                  cache := None\<rparr>), w1))"

text \<open>
  Lines 157-168, huoqu_resolver: the resolver of this worker for the key
  \<open>(dns_server, timeout_sec)\<close>, built by \<^verbatim>\<open>Resolver()\<close> on first use and stored.
\<close>

definition huoqu_resolver ::
  "'w env \<Rightarrow> string \<Rightarrow> rat \<Rightarrow> 'w state \<Rightarrow> (error + resolver) \<times> 'w state" where
  "huoqu_resolver E dns_server timeout_sec s =
     (let key = (dns_server, timeout_sec) in
      case resolvers s key of
        Some r \<Rightarrow> (Inr r, s)
      | None \<Rightarrow>
          (let s1 = jilu (NewResolver True) s in
           case Resolver E True (world s1) of
             (Inl e, w1) \<Rightarrow> (Inl e, s1\<lparr>world := w1\<rparr>)
           | (Inr r0, w1) \<Rightarrow>
               (let r = r0\<lparr>nameservers := [dns_server], timeout := timeout_sec,
                            lifetime := timeout_sec\<rparr>
                in (Inr r, s1\<lparr>world := w1, resolvers := (resolvers s1)(key \<mapsto> r)\<rparr>))))"

section \<open>Pollution verification (lines 85-121)\<close>

text \<open>Lines 91-94: the loop over \<^verbatim>\<open>benchmark_ips[:3]\<close>; False is the early return.\<close>

fun jizhun_jiancha :: "mmdb_reader option \<Rightarrow> string list \<Rightarrow> bool" where
  "jizhun_jiancha reader [] = True"
| "jizhun_jiancha reader (ip # ips) =
     (if \<not> jiancha_google_ip reader ip then False else jizhun_jiancha reader ips)"

text \<open>
  Lines 98-121: the loop \<^verbatim>\<open>for i in range(5)\<close> over the remaining values of \<open>i\<close>, with
  the counter chunjing_cishu, and the statements after the loop. The two
  clock readings of lines 103 and 106 feed a commented-out print only and are left out.
\<close>

fun yanzheng_xunhuan ::
  "'w env \<Rightarrow> mmdb_reader option \<Rightarrow> string \<Rightarrow> nat list \<Rightarrow> nat \<Rightarrow> 'w state
     \<Rightarrow> (error + label) \<times> 'w state" where
  "yanzheng_xunhuan E reader dns_server [] chunjing_cishu s =
     (Inr (if chunjing_cishu = 5 then Weiwuran else Yiwuran), s)"
| "yanzheng_xunhuan E reader dns_server (i # rest) chunjing_cishu s =
     (let s0 = jilu (NewResolver False) s in
      case chuangjian_ganjing_resolver E dns_server 3 (world s0) of
        (Inl e, w1) \<Rightarrow> (Inl e, s0\<lparr>world := w1\<rparr>)
      | (Inr r, w1) \<Rightarrow>
          (let s1 = s0\<lparr>world := w1\<rparr>;
               s2 = jilu (Resolve r ''google.com'' ''A'') s1;
               (answers, w) = resolve E r ''google.com'' ''A'' (world s2);
               s3 = s2\<lparr>world := w\<rparr>
           in case answers of
                Inl e \<Rightarrow> (Inr Yiwuran, s3)
              | Inr ips \<Rightarrow>
                  if list_all (jiancha_google_ip reader) ips
                  then yanzheng_xunhuan E reader dns_server rest (chunjing_cishu + 1) s3
                  else (Inr Yiwuran, s3)))"

text \<open>Lines 85-121, zhongji_wuran_jiance.\<close>

definition zhongji_wuran_jiance ::
  "'w env \<Rightarrow> mmdb_reader option \<Rightarrow> string \<Rightarrow> string list \<Rightarrow> 'w state
     \<Rightarrow> (error + label) \<times> 'w state" where
  "zhongji_wuran_jiance E reader dns_server benchmark_ips s =
     (if \<not> jizhun_jiancha reader (take 3 benchmark_ips) then (Inr Yiwuran, s)
      else yanzheng_xunhuan E reader dns_server [0..<5] 0 s)"

text \<open>
  What the call of line 101 returns: the constructor with \<open>configure=False\<close> has no failing
  branch.
\<close>

definition ganjing_resolver :: "string \<Rightarrow> rat \<Rightarrow> resolver" where
  "ganjing_resolver server tmo =
     \<lparr>nameservers = [server], search = [], timeout = tmo, lifetime = tmo, cache = None\<rparr>"

text \<open>
  One round taken by itself, in the words of the specification: build a new resolver,
  resolve google.com afresh; the round passes when the query succeeds and every resolved
  address classifies as Google's.
\<close>

definition yilun :: "'w env \<Rightarrow> mmdb_reader option \<Rightarrow> string \<Rightarrow> 'w state \<Rightarrow> bool \<times> 'w state" where
  "yilun E reader server s =
     (let r = ganjing_resolver server 3;
          s2 = jilu (Resolve r ''google.com'' ''A'') (jilu (NewResolver False) s);
          reply = resolve E r ''google.com'' ''A'' (world s2)
      in ((case fst reply of
             Inl e \<Rightarrow> False
           | Inr ips \<Rightarrow> list_all (jiancha_google_ip reader) ips),
          s2\<lparr>world := snd reply\<rparr>))"

text \<open>The outcomes of \<open>n\<close> rounds run one after the other, none skipped.\<close>

fun lunci :: "'w env \<Rightarrow> mmdb_reader option \<Rightarrow> string \<Rightarrow> nat \<Rightarrow> 'w state \<Rightarrow> bool list" where
  "lunci E reader server 0 s = []"
| "lunci E reader server (Suc n) s =
     fst (yilun E reader server s) # lunci E reader server n (snd (yilun E reader server s))"

text \<open>
  The baseline check as lines 91-94 make it: none of the first three addresses fails
  classification. An empty list has no address that fails.
\<close>

definition jizhun_wu_shibai :: "mmdb_reader option \<Rightarrow> string list \<Rightarrow> bool" where
  "jizhun_wu_shibai reader baseline_addresses =
     list_all (jiancha_google_ip reader) (take 3 baseline_addresses)"

text \<open>
  The baseline check in the words of the specification (4.5, step 1): it fails when the
  list is empty or when one of the first three addresses fails classification.
\<close>

definition jizhun_tongguo :: "mmdb_reader option \<Rightarrow> string list \<Rightarrow> bool" where
  "jizhun_tongguo reader baseline_addresses =
     (baseline_addresses \<noteq> [] \<and>
      list_all (jiancha_google_ip reader) (take 3 baseline_addresses))"

section \<open>Benchmarking one candidate (lines 170-217)\<close>

text \<open>
  Lines 170-179, zhixing_dns_chaxun. The bare \<^verbatim>\<open>except:\<close> covers the construction of the
  resolver as well as the query; the result is the triple (ok, latency in ms, addresses).
\<close>

definition zhixing_dns_chaxun ::
  "'w env \<Rightarrow> string \<Rightarrow> string \<Rightarrow> string \<Rightarrow> rat \<Rightarrow> 'w state
     \<Rightarrow> (bool \<times> rat \<times> string list) \<times> 'w state" where
  "zhixing_dns_chaxun E domain dns_server record_type timeout_sec s =
     (let start = perf_counter E (world s) in
      case huoqu_resolver E dns_server timeout_sec s of
        (Inl e, s1) \<Rightarrow> ((False, (perf_counter E (world s1) - start) * 1000, []), s1)
      | (Inr r, s1) \<Rightarrow>
          (let s2 = jilu (Resolve r domain record_type) s1;
               (answers, w) = resolve E r domain record_type (world s2);
               s3 = s2\<lparr>world := w\<rparr>
           in case answers of
                Inl e \<Rightarrow> ((False, (perf_counter E w - start) * 1000, []), s3)
              | Inr ip_list \<Rightarrow> ((True, (perf_counter E w - start) * 1000, ip_list), s3)))"

text \<open>
  The dictionary returned in lines 213-217. Keys: chenggonglv (success rate), pingjun_yanchi_ms,
  zuixiao_yanchi_ms and zuida_yanchi_ms (average, least and greatest latency), dns_wuran
  (the pollution label).
\<close>

record jieguo =
  dns_server :: string
  chenggonglv :: rat
  pingjun_yanchi_ms :: rat
  zuixiao_yanchi_ms :: rat
  zuida_yanchi_ms :: rat
  dns_wuran :: label
  google_ips :: "string list"

text \<open>
  The local variables of line 184: zong_cishu (attempts), chenggong_cishu (successes),
  yanchi_liebiao (latencies of the successes) and \<open>domain_ips\<close>.
\<close>

type_synonym leiji = "nat \<times> nat \<times> rat list \<times> (string \<rightharpoonup> string list)"

text \<open>Line 192.\<close>

definition xuan_rtype :: "string \<Rightarrow> bool \<Rightarrow> string" where
  "xuan_rtype ip_mode shi_ipv4 =
     (if ip_mode \<noteq> ''6'' \<and> (ip_mode = ''4'' \<or> shi_ipv4) then ''A'' else ''AAAA'')"

text \<open>Lines 191-201: the loop over the domains; None is the \<^verbatim>\<open>return None\<close> of line 198.\<close>

fun ceshi_xunhuan ::
  "'w env \<Rightarrow> string \<Rightarrow> string \<Rightarrow> bool \<Rightarrow> rat \<Rightarrow> rat \<Rightarrow> string list \<Rightarrow> leiji \<Rightarrow> 'w state
     \<Rightarrow> leiji option \<times> 'w state" where
  "ceshi_xunhuan E server ip_mode shi_ipv4 timeout_sec yanchi_xiaxian_ms [] acc s =
     (Some acc, s)"
| "ceshi_xunhuan E server ip_mode shi_ipv4 timeout_sec yanchi_xiaxian_ms (domain # rest)
     acc s =
     (case acc of (zong_cishu, chenggong_cishu, yanchi_liebiao, domain_ips) \<Rightarrow>
      (case zhixing_dns_chaxun E domain server (xuan_rtype ip_mode shi_ipv4)
              timeout_sec s of
         ((ok, latency, ips), s1) \<Rightarrow>
           if latency < yanchi_xiaxian_ms then (None, s1)
           else if ok then
             ceshi_xunhuan E server ip_mode shi_ipv4 timeout_sec yanchi_xiaxian_ms rest
               (zong_cishu + 1, chenggong_cishu + 1, yanchi_liebiao @ [latency],
                domain_ips(domain \<mapsto> ips)) s1
           else
             ceshi_xunhuan E server ip_mode shi_ipv4 timeout_sec yanchi_xiaxian_ms rest
               (zong_cishu + 1, chenggong_cishu, yanchi_liebiao,
                domain_ips(domain \<mapsto> ips)) s1))"

text \<open>
  Lines 181-217, ceshi_dange_dns. The literal 0.4 is the rational 2/5 here; the binary64
  quotient of two counts exceeds the binary64 0.4 exactly when the exact quotient exceeds
  2/5, for every count below 2^50.
\<close>

definition ceshi_dange_dns ::
  "'w env \<Rightarrow> string \<Rightarrow> string list \<Rightarrow> string \<Rightarrow> rat \<Rightarrow> rat \<Rightarrow> bool \<Rightarrow> 'w state
     \<Rightarrow> jieguo option \<times> 'w state" where
  "ceshi_dange_dns E server domains ip_mode timeout_sec yanchi_xiaxian_ms kaiqi_wuran_jiancha s =
     (let shi_ipv4 = (case ip_address E server of None \<Rightarrow> True | Some v4 \<Rightarrow> v4) in
      case ceshi_xunhuan E server ip_mode shi_ipv4 timeout_sec yanchi_xiaxian_ms domains
             (0, 0, [], Map.empty) s of
        (None, s1) \<Rightarrow> (None, s1)
      | (Some (zong_cishu, chenggong_cishu, yanchi_liebiao, domain_ips), s1) \<Rightarrow>
          if zong_cishu = 0 then (None, s1)
          else
            (case yanchi_liebiao of
               [] \<Rightarrow> (None, s1)
             | y # ys \<Rightarrow>
                 (let chenggonglv_v = of_nat chenggong_cishu / of_nat zong_cishu;
                      avg = sum_list yanchi_liebiao / of_nat (length yanchi_liebiao);
                      min_d = foldl min y ys;
                      max_d = foldl max y ys;
                      wuran_zhuangtai =
                        (if kaiqi_wuran_jiancha \<and> chenggonglv_v > 4 / 10 then Daijiance
                         else Weiceshi)
                  in (Some \<lparr>dns_server = server, chenggonglv = chenggonglv_v,
                            pingjun_yanchi_ms = avg, zuixiao_yanchi_ms = min_d,
                            zuida_yanchi_ms = max_d, dns_wuran = wuran_zhuangtai,
                            google_ips =
                              (case domain_ips ''google.com'' of None \<Rightarrow> [] | Some l \<Rightarrow> l)\<rparr>,
                      s1))))"

text \<open>
  The outcome of every query of a run in which line 198 never fires: what the executor
  reports for each domain in turn. Used to state what a run observes.
\<close>

fun quanbu_chaxun ::
  "'w env \<Rightarrow> string \<Rightarrow> string \<Rightarrow> rat \<Rightarrow> string list \<Rightarrow> 'w state
     \<Rightarrow> (bool \<times> rat \<times> string list) list" where
  "quanbu_chaxun E server rtype timeout_sec [] s = []"
| "quanbu_chaxun E server rtype timeout_sec (domain # rest) s =
     (case zhixing_dns_chaxun E domain server rtype timeout_sec s of
        (out, s1) \<Rightarrow> out # quanbu_chaxun E server rtype timeout_sec rest s1)"

text \<open>The record type computed by line 187 and line 192 for a candidate.\<close>

definition houxuan_rtype :: "'w env \<Rightarrow> string \<Rightarrow> string \<Rightarrow> string" where
  "houxuan_rtype E server ip_mode =
     xuan_rtype ip_mode (case ip_address E server of None \<Rightarrow> True | Some v4 \<Rightarrow> v4)"

definition chenggong :: "(bool \<times> rat \<times> string list) \<Rightarrow> bool" where
  "chenggong out = fst out"

definition yanchi :: "(bool \<times> rat \<times> string list) \<Rightarrow> rat" where
  "yanchi out = fst (snd out)"

text \<open>What a benchmark run of a candidate observes when no query disqualifies it.\<close>

definition guancha ::
  "'w env \<Rightarrow> string \<Rightarrow> string \<Rightarrow> rat \<Rightarrow> string list \<Rightarrow> 'w state
     \<Rightarrow> (bool \<times> rat \<times> string list) list" where
  "guancha E server ip_mode timeout_sec domains s =
     quanbu_chaxun E server (houxuan_rtype E server ip_mode) timeout_sec domains s"

text \<open>The three counters of the loop, without the dictionary.\<close>

definition sanxiang :: "leiji \<Rightarrow> nat \<times> nat \<times> rat list" where
  "sanxiang acc = (case acc of (z, c, ys, m) \<Rightarrow> (z, c, ys))"

text \<open>The resolver of a successful construction.\<close>

definition the_resolver :: "error + resolver \<Rightarrow> resolver" where
  "the_resolver x = (case x of Inr r \<Rightarrow> r | Inl e \<Rightarrow> reset)"

section \<open>Orchestration (lines 282-339)\<close>

text \<open>
  The two worker pools are abstracted to what \<^verbatim>\<open>as_completed\<close> delivers: the tasks are
  listed in the order in which their futures complete, each with the state its benchmark
  run starts in and the state its verification run (if there is one) starts in.
\<close>

type_synonym 'w renwu = "string \<times> 'w state \<times> 'w state"

text \<open>
  Lines 286-302: the benchmark phase. A task that returns None adds nothing to the result
  list (jieguo_liebiao); the handler of line 300 has nothing to catch, since the model of
  ceshi_dange_dns has no failing branch.
\<close>

fun jizhun_ceshi ::
  "'w env \<Rightarrow> string list \<Rightarrow> string \<Rightarrow> rat \<Rightarrow> rat \<Rightarrow> bool \<Rightarrow> 'w renwu list
     \<Rightarrow> (jieguo \<times> 'w state) list" where
  "jizhun_ceshi E test_domains ip_mode tmo min_delay pollute [] = []"
| "jizhun_ceshi E test_domains ip_mode tmo min_delay pollute ((dns, s, sv) # rest) =
     (case fst (ceshi_dange_dns E dns test_domains ip_mode tmo min_delay pollute s) of
        None \<Rightarrow> jizhun_ceshi E test_domains ip_mode tmo min_delay pollute rest
      | Some res \<Rightarrow> (res, sv) # jizhun_ceshi E test_domains ip_mode tmo min_delay pollute rest)"

text \<open>
  Lines 312-325: the verification phase. \<^verbatim>\<open>ThreadPoolExecutor(max_workers=threads//4)\<close>
  raises ValueError for a width of 0; the verdict is written into the record the candidate
  list shares with the result list; an exception of a task is written as Yiwuran.
\<close>

definition xie_jielun :: "'w env \<Rightarrow> mmdb_reader option \<Rightarrow> jieguo \<times> 'w state \<Rightarrow> jieguo \<times> 'w state"
  where
  "xie_jielun E reader p =
     (case p of (r, sv) \<Rightarrow>
        if dns_wuran r = Daijiance then
          (r\<lparr>dns_wuran :=
                (case fst (zhongji_wuran_jiance E reader (dns_server r) (google_ips r) sv) of
                   Inl e \<Rightarrow> Yiwuran
                 | Inr verdict \<Rightarrow> verdict)\<rparr>, sv)
        else (r, sv))"

definition wuran_jiance_jieduan ::
  "'w env \<Rightarrow> mmdb_reader option \<Rightarrow> nat \<Rightarrow> (jieguo \<times> 'w state) list
     \<Rightarrow> error + (jieguo \<times> 'w state) list" where
  "wuran_jiance_jieduan E reader threads jieguo_liebiao =
     (let candidates = filter (\<lambda>p. dns_wuran (fst p) = Daijiance) jieguo_liebiao in
      if candidates = [] then Inr jieguo_liebiao
      else if threads div 4 = 0 then Inl (ValueError ''max_workers must be greater than 0'')
      else Inr (map (xie_jielun E reader) jieguo_liebiao))"

text \<open>Lines 328-330: what is still pending becomes not tested.\<close>

definition moren_zhuangtai :: "jieguo list \<Rightarrow> jieguo list" where
  "moren_zhuangtai rs =
     map (\<lambda>r. if dns_wuran r = Daijiance then r\<lparr>dns_wuran := Weiceshi\<rparr> else r) rs"

text \<open>Python's \<^verbatim>\<open><\<close> on strings, by code points.\<close>

fun str_less :: "nat list \<Rightarrow> nat list \<Rightarrow> bool" where
  "str_less [] [] = False"
| "str_less [] (y # ys) = True"
| "str_less (x # xs) [] = False"
| "str_less (x # xs) (y # ys) = (x < y \<or> (x = y \<and> str_less xs ys))"

text \<open>
  Line 339 with the three sort columns of lines 334-337 and
  \<^verbatim>\<open>ascending=[False, True, False]\<close>: the row \<open>a\<close> goes strictly before the row \<open>b\<close>.
\<close>

definition pai_zai_qian :: "jieguo \<Rightarrow> jieguo \<Rightarrow> bool" where
  "pai_zai_qian a b =
     (chenggonglv a > chenggonglv b \<or>
      (chenggonglv a = chenggonglv b \<and>
       (pingjun_yanchi_ms a < pingjun_yanchi_ms b \<or>
        (pingjun_yanchi_ms a = pingjun_yanchi_ms b \<and>
         str_less (label_str (dns_wuran b)) (label_str (dns_wuran a))))))"

text \<open>\<^verbatim>\<open>DataFrame.sort_values\<close> on several columns is a stable sort: rows that tie keep their order.\<close>

fun charu :: "jieguo \<Rightarrow> jieguo list \<Rightarrow> jieguo list" where
  "charu x [] = [x]"
| "charu x (y # ys) = (if pai_zai_qian y x then y # charu x ys else x # y # ys)"

definition sort_values :: "jieguo list \<Rightarrow> jieguo list" where
  "sort_values rs = foldr charu rs []"

text \<open>
  Lines 333-339. With the flag off, \<open>sort_cols\<close> has two entries and \<open>ascending\<close> three, which
  \<^verbatim>\<open>sort_values\<close> rejects.
\<close>

definition daochu_paixu :: "bool \<Rightarrow> jieguo list \<Rightarrow> error + jieguo list" where
  "daochu_paixu kaiqi rs =
     (if kaiqi then Inr (sort_values rs)
      else Inl (ValueError ''Length of ascending (3) != length of by (2)''))"

text \<open>The place of each label string in ascending code-point order.\<close>

fun label_rank :: "label \<Rightarrow> nat" where
  "label_rank Yiwuran = 0"
| "label_rank Daijiance = 1"
| "label_rank Weiwuran = 2"
| "label_rank Weiceshi = 3"

text \<open>
  What the two phases leave in every record when the flag is on: a record that was never
  pending is not tested and has a success rate of at most 0.4; a record that was pending is
  clean or polluted and has a greater one.
\<close>

definition baogao_hege :: "jieguo \<Rightarrow> bool" where
  "baogao_hege r =
     ((dns_wuran r = Weiceshi \<and> chenggonglv r \<le> 4 / 10) \<or>
      ((dns_wuran r = Weiwuran \<or> dns_wuran r = Yiwuran) \<and> chenggonglv r > 4 / 10))"

text \<open>
  The order of the report in the words of the specification: success rate descending, then
  average latency ascending, then Clean ahead of every other label. The row \<open>a\<close> may stand
  before the row \<open>b\<close>.
\<close>

definition shuoming_shunxu :: "jieguo \<Rightarrow> jieguo \<Rightarrow> bool" where
  "shuoming_shunxu a b =
     (chenggonglv a > chenggonglv b \<or>
      (chenggonglv a = chenggonglv b \<and>
       (pingjun_yanchi_ms a < pingjun_yanchi_ms b \<or>
        (pingjun_yanchi_ms a = pingjun_yanchi_ms b \<and>
         (dns_wuran a = Weiwuran \<or> dns_wuran b \<noteq> Weiwuran)))))"

text \<open>
  Lines 282-339, the body of \<^verbatim>\<open>main\<close> once the prompts are answered. Line 282 assigns
  \<open>pollute = 1\<close>; lines 311, 335 and 342 read the name kaiqi_wuran_jiancha, which \<^verbatim>\<open>main\<close>
  never assigns (its assignment, line 281, is commented out), so Python looks it up among
  the module's globals when line 311 runs. The argument \<open>quanju\<close> is that lookup: None when
  no such global exists (NameError), otherwise the truth value of what it is bound to.
  The argument \<open>threads\<close> is the pool width after line 263 has clamped it to 1..4096.
\<close>

definition main_core ::
  "'w env \<Rightarrow> mmdb_reader option \<Rightarrow> bool option \<Rightarrow> nat \<Rightarrow> string list \<Rightarrow> string \<Rightarrow> rat \<Rightarrow> rat
     \<Rightarrow> 'w renwu list \<Rightarrow> error + jieguo list" where
  "main_core E reader quanju threads test_domains ip_mode per_query_timeout_sec min_delay tasks =
     (let pollute = True;
          jieguo_liebiao =
            jizhun_ceshi E test_domains ip_mode per_query_timeout_sec min_delay pollute tasks
      in if jieguo_liebiao = [] then Inl (SystemExit 1)
         else
           (case quanju of
              None \<Rightarrow> Inl (NameError ''kaiqi_wuran_jiancha'')
            | Some kaiqi \<Rightarrow>
                (case (if kaiqi then wuran_jiance_jieduan E reader threads jieguo_liebiao
                       else Inr jieguo_liebiao) of
                   Inl e \<Rightarrow> Inl e
                 | Inr biaoji \<Rightarrow> daochu_paixu kaiqi (moren_zhuangtai (map fst biaoji)))))"

text \<open>
  The program as shipped: dnstest.py defines no global of that name, and neither do the
  builtins.
\<close>

definition main ::
  "'w env \<Rightarrow> mmdb_reader option \<Rightarrow> nat \<Rightarrow> string list \<Rightarrow> string \<Rightarrow> rat \<Rightarrow> rat
     \<Rightarrow> 'w renwu list \<Rightarrow> error + jieguo list" where
  "main E reader = main_core E reader None"

section \<open>A small concrete world\<close>

text \<open>
  For evaluating the definitions: the world counts the queries answered so far, every query
  takes 20 ms, the n-th query gets the answer \<open>answers n\<close>, and the ownership database knows
  one address of Google and one of somebody else.
\<close>

definition shili_reader :: mmdb_reader where
  "shili_reader ip =
     (if ip = ''142.250.72.14''
      then Inr (Some [(''autonomous_system_organization'', ''GOOGLE'')])
      else if ip = ''203.0.113.7''
      then Inr (Some [(''autonomous_system_organization'', ''Example Net'')])
      else Inr None)"

definition shili_env :: "(nat \<Rightarrow> error + string list) \<Rightarrow> nat env" where
  "shili_env answers =
     \<lparr>sysconf =
        (\<lambda>w. (Inr \<lparr>conf_nameservers = [''127.0.0.53''], conf_search = [''lan'']\<rparr>, w)),
      resolve = (\<lambda>r d t w. (answers w, w + 1)),
      perf_counter = (\<lambda>w. of_nat w / 50),
      ip_address = (\<lambda>a. if a = ''8.8.8.8'' then Some True else None)\<rparr>"

definition shili_state :: "nat state" where
  "shili_state = \<lparr>world = 0, resolvers = Map.empty, trace = []\<rparr>"

text \<open>Every query is answered with the address of Google.\<close>

definition shili_haode :: "nat env" where
  "shili_haode = shili_env (\<lambda>n. Inr [''142.250.72.14''])"

text \<open>The third query is answered with the foreign address, every other one with Google's.\<close>

definition shili_disanci :: "nat env" where
  "shili_disanci =
     shili_env (\<lambda>n. if n = 2 then Inr [''203.0.113.7''] else Inr [''142.250.72.14''])"

text \<open>The second query times out, every other one is answered with Google's address.\<close>

definition shili_dierci_chaoshi :: "nat env" where
  "shili_dierci_chaoshi =
     shili_env (\<lambda>n. if n = 1 then Inl Timeout else Inr [''142.250.72.14''])"

text \<open>Every query times out.\<close>

definition shili_quan_chaoshi :: "nat env" where
  "shili_quan_chaoshi = shili_env (\<lambda>n. Inl Timeout)"

text \<open>A machine whose resolver configuration names no server.\<close>

definition shili_wu_peizhi :: "nat env" where
  "shili_wu_peizhi =
     \<lparr>sysconf = (\<lambda>w. (Inr \<lparr>conf_nameservers = [], conf_search = []\<rparr>, w)),
      resolve = (\<lambda>r d t w. (Inr [''142.250.72.14''], w + 1)),
      perf_counter = (\<lambda>w. of_nat w / 50),
      ip_address = (\<lambda>a. if a = ''8.8.8.8'' then Some True else None)\<rparr>"

text \<open>Every query is answered with Google's address; the second one within 2 ms.\<close>

definition shili_dierci_kuai :: "nat env" where
  "shili_dierci_kuai =
     \<lparr>sysconf =
        (\<lambda>w. (Inr \<lparr>conf_nameservers = [''127.0.0.53''], conf_search = [''lan'']\<rparr>, w)),
      resolve = (\<lambda>r d t w. (Inr [''142.250.72.14''], w + 1)),
      perf_counter = (\<lambda>w. if w < 2 then of_nat w / 50 else of_nat w / 50 - 9 / 500),
      ip_address = (\<lambda>a. if a = ''8.8.8.8'' then Some True else None)\<rparr>"

text \<open>
  The first fifty queries are answered with Google's address, the next fifty with the
  foreign one, and every later query times out.
\<close>

definition shili_hunhe :: "nat env" where
  "shili_hunhe =
     shili_env (\<lambda>n. if n < 50 then Inr [''142.250.72.14'']
                     else if n < 100 then Inr [''203.0.113.7''] else Inl Timeout)"

definition shili_zhuangtai :: "nat \<Rightarrow> nat state" where
  "shili_zhuangtai n = \<lparr>world = n, resolvers = Map.empty, trace = []\<rparr>"

text \<open>
  Three candidates in the order in which their benchmark runs complete: the first is
  answered honestly while benchmarked and with the foreign address while verified, the
  second reaches only its first domain, the third is answered honestly throughout.
\<close>

definition shili_renwu :: "nat renwu list" where
  "shili_renwu =
     [(''9.9.9.9'', shili_zhuangtai 0, shili_zhuangtai 60),
      (''1.1.1.1'', shili_zhuangtai 99, shili_zhuangtai 0),
      (''8.8.8.8'', shili_zhuangtai 0, shili_zhuangtai 10)]"

definition shili_yuming :: "string list" where
  "shili_yuming = [''google.com'', ''facebook.com'', ''amazon.com'']"

section \<open>Facts about the verifier\<close>

lemma chuangjian_total:
  "chuangjian_ganjing_resolver E server tmo w = (Inr (ganjing_resolver server tmo), w)"
  by (simp add: chuangjian_ganjing_resolver_def Resolver_def reset_def ganjing_resolver_def)

lemma jizhun_jiancha_all: "jizhun_jiancha reader ips = list_all (jiancha_google_ip reader) ips"
  by (induction ips) auto

lemma chaxun_cishu_jilu [simp]:
  "chaxun_cishu (trace (jilu ev s)) = chaxun_cishu (trace s) + (if is_query ev then 1 else 0)"
  by (simp add: jilu_def chaxun_cishu_def)

lemma trace_world_update [simp]: "trace (s\<lparr>world := w\<rparr>) = trace s"
  by simp

lemma yilun_queries:
  "chaxun_cishu (trace (snd (yilun E reader server s))) = chaxun_cishu (trace s) + 1"
  by (simp add: yilun_def Let_def)

lemma xunhuan_step:
  "yanzheng_xunhuan E reader server (i # rest) c s =
     (if fst (yilun E reader server s)
      then yanzheng_xunhuan E reader server rest (c + 1) (snd (yilun E reader server s))
      else (Inr Yiwuran, snd (yilun E reader server s)))"
  by (simp add: chuangjian_total yilun_def Let_def split: prod.splits sum.splits)

lemma xunhuan_fst:
  "fst (yanzheng_xunhuan E reader server is c s) =
     Inr (if list_all id (lunci E reader server (length is) s) \<and> c + length is = 5
          then Weiwuran else Yiwuran)"
proof (induction "is" arbitrary: c s)
  case Nil
  then show ?case by simp
next
  case (Cons i rest)
  show ?case
    unfolding xunhuan_step by (simp add: Cons.IH)
qed

lemma xunhuan_queries:
  "chaxun_cishu (trace (snd (yanzheng_xunhuan E reader server is c s))) =
     chaxun_cishu (trace s)
       + min (length is) (length (takeWhile id (lunci E reader server (length is) s)) + 1)"
proof (induction "is" arbitrary: c s)
  case Nil
  then show ?case by simp
next
  case (Cons i rest)
  show ?case
    unfolding xunhuan_step by (simp add: Cons.IH yilun_queries)
qed


lemma length_lunci [simp]: "length (lunci E reader server n s) = n"
  by (induction n arbitrary: s) auto

lemma xunhuan_trace_length:
  "length (trace (snd (yanzheng_xunhuan E reader server is c s))) =
     length (trace s)
       + 2 * min (length is) (length (takeWhile id (lunci E reader server (length is) s)) + 1)"
proof (induction "is" arbitrary: c s)
  case Nil
  then show ?case by simp
next
  case (Cons i rest)
  have "length (trace (snd (yilun E reader server s))) = length (trace s) + 2"
    by (simp add: yilun_def Let_def jilu_def)
  then show ?case
    unfolding xunhuan_step by (simp add: Cons.IH)
qed

lemma first_failure_position:
  assumes "k \<le> length rs" "1 \<le> k" "\<forall>j < k - 1. rs ! j" "\<not> rs ! (k - 1)"
  shows "length (takeWhile id rs) + 1 = k"
proof -
  have "takeWhile id rs = take (k - 1) rs"
    using assms by (intro takeWhile_eq_take_P_nth) simp_all
  then show ?thesis using assms by simp
qed

text \<open>
  Claim C2, as amended. The verifier returns Clean exactly when none of the first three
  baseline addresses fails classification (an empty baseline list has none) and all five
  rounds pass; it never returns anything but Clean or Polluted; when that baseline check
  passes and round \<open>k\<close> (1 to 5) is the first round that fails, the verdict is Polluted and
  exactly \<open>k\<close> resolvers have been built and \<open>k\<close> queries sent: rounds \<open>k+1\<close> to 5 are
  not executed. For a baseline list that is not empty this is the specification's own
  baseline check.
\<close>

theorem zhongji_clean_iff_all_rounds:
  "(fst (zhongji_wuran_jiance E reader server ips s) = Inr Weiwuran \<longleftrightarrow>
      jizhun_wu_shibai reader ips \<and> list_all id (lunci E reader server 5 s))
   \<and> (fst (zhongji_wuran_jiance E reader server ips s) \<noteq> Inr Weiwuran \<longrightarrow>
        fst (zhongji_wuran_jiance E reader server ips s) = Inr Yiwuran)
   \<and> (jizhun_wu_shibai reader ips \<and> 1 \<le> k \<and> k \<le> 5
        \<and> (\<forall>j < k - 1. lunci E reader server 5 s ! j)
        \<and> \<not> lunci E reader server 5 s ! (k - 1) \<longrightarrow>
        fst (zhongji_wuran_jiance E reader server ips s) = Inr Yiwuran
        \<and> chaxun_cishu (trace (snd (zhongji_wuran_jiance E reader server ips s))) =
            chaxun_cishu (trace s) + k
        \<and> length (trace (snd (zhongji_wuran_jiance E reader server ips s))) =
            length (trace s) + 2 * k)
   \<and> (ips \<noteq> [] \<longrightarrow>
        (fst (zhongji_wuran_jiance E reader server ips s) = Inr Weiwuran \<longleftrightarrow>
           jizhun_tongguo reader ips \<and> list_all id (lunci E reader server 5 s)))"
proof (intro conjI impI)
  show iff: "fst (zhongji_wuran_jiance E reader server ips s) = Inr Weiwuran \<longleftrightarrow>
      jizhun_wu_shibai reader ips \<and> list_all id (lunci E reader server 5 s)"
    by (simp add: zhongji_wuran_jiance_def jizhun_wu_shibai_def jizhun_jiancha_all xunhuan_fst)
  show "fst (zhongji_wuran_jiance E reader server ips s) = Inr Weiwuran \<longleftrightarrow>
      jizhun_tongguo reader ips \<and> list_all id (lunci E reader server 5 s)"
    if "ips \<noteq> []"
    using that iff by (simp add: jizhun_tongguo_def jizhun_wu_shibai_def)
next
  assume "fst (zhongji_wuran_jiance E reader server ips s) \<noteq> Inr Weiwuran"
  then show "fst (zhongji_wuran_jiance E reader server ips s) = Inr Yiwuran"
    by (simp add: zhongji_wuran_jiance_def xunhuan_fst split: if_splits)
next
  assume a: "jizhun_wu_shibai reader ips \<and> 1 \<le> k \<and> k \<le> 5
        \<and> (\<forall>j < k - 1. lunci E reader server 5 s ! j)
        \<and> \<not> lunci E reader server 5 s ! (k - 1)"
  let ?rs = "lunci E reader server 5 s"
  have pos: "length (takeWhile id ?rs) + 1 = k"
    using a by (intro first_failure_position) simp_all
  have run: "zhongji_wuran_jiance E reader server ips s =
      yanzheng_xunhuan E reader server [0..<5] 0 s"
    using a by (simp add: zhongji_wuran_jiance_def jizhun_wu_shibai_def jizhun_jiancha_all)
  have notall: "\<not> list_all id ?rs"
  proof
    assume "list_all id ?rs"
    then have "\<forall>n < length ?rs. ?rs ! n" by (simp add: list_all_length)
    moreover have "k - 1 < length ?rs" using a by simp linarith
    ultimately have "?rs ! (k - 1)" by blast
    with a show False by simp
  qed
  show "fst (zhongji_wuran_jiance E reader server ips s) = Inr Yiwuran"
    using notall by (simp add: run xunhuan_fst)
  show "chaxun_cishu (trace (snd (zhongji_wuran_jiance E reader server ips s))) =
            chaxun_cishu (trace s) + k"
    using pos a by (simp add: run xunhuan_queries)
  show "length (trace (snd (zhongji_wuran_jiance E reader server ips s))) =
            length (trace s) + 2 * k"
    using pos a by (simp add: run xunhuan_trace_length)
qed

theorem zhongji_clean_iff_all_rounds_witness:
  "jizhun_wu_shibai (Some shili_reader) [''142.250.72.14'']
   \<and> lunci shili_disanci (Some shili_reader) ''8.8.8.8'' 5 shili_state =
        [True, True, False, True, True]
   \<and> fst (zhongji_wuran_jiance shili_disanci (Some shili_reader) ''8.8.8.8''
            [''142.250.72.14''] shili_state) \<noteq> Inr Weiwuran
   \<and> fst (zhongji_wuran_jiance shili_disanci (Some shili_reader) ''8.8.8.8''
            [''142.250.72.14''] shili_state) = Inr Yiwuran
   \<and> chaxun_cishu (trace (snd (zhongji_wuran_jiance shili_disanci (Some shili_reader)
            ''8.8.8.8'' [''142.250.72.14''] shili_state))) = 3
   \<and> [''142.250.72.14''] \<noteq> ([] :: string list)
   \<and> jizhun_tongguo (Some shili_reader) [''142.250.72.14'']
   \<and> lunci shili_haode (Some shili_reader) ''8.8.8.8'' 5 shili_state =
        [True, True, True, True, True]
   \<and> fst (zhongji_wuran_jiance shili_haode (Some shili_reader) ''8.8.8.8''
            [''142.250.72.14''] shili_state) = Inr Weiwuran"
proof -
  have rs: "lunci shili_disanci (Some shili_reader) ''8.8.8.8'' 5 shili_state =
      [True, True, False, True, True]"
    by code_simp
  have base: "jizhun_wu_shibai (Some shili_reader) [''142.250.72.14'']"
    by code_simp
  have h1: "\<forall>j < 3 - 1. lunci shili_disanci (Some shili_reader) ''8.8.8.8'' 5 shili_state ! j"
  proof (intro allI impI)
    fix j :: nat
    assume "j < 3 - 1"
    then have "j = 0 \<or> j = 1" by auto
    then show "lunci shili_disanci (Some shili_reader) ''8.8.8.8'' 5 shili_state ! j"
      unfolding rs by auto
  qed
  have h2: "\<not> lunci shili_disanci (Some shili_reader) ''8.8.8.8'' 5 shili_state ! (3 - 1)"
    unfolding rs by simp
  have tr: "chaxun_cishu (trace shili_state) = 0"
    by (simp add: shili_state_def chaxun_cishu_def)
  have k: "(1::nat) \<le> 3 \<and> (3::nat) \<le> 5" by simp
  from zhongji_clean_iff_all_rounds
      [of shili_disanci "Some shili_reader" "''8.8.8.8''" "[''142.250.72.14'']" shili_state 3]
  have "fst (zhongji_wuran_jiance shili_disanci (Some shili_reader) ''8.8.8.8''
            [''142.250.72.14''] shili_state) = Inr Yiwuran
     \<and> chaxun_cishu (trace (snd (zhongji_wuran_jiance shili_disanci (Some shili_reader)
            ''8.8.8.8'' [''142.250.72.14''] shili_state))) = chaxun_cishu (trace shili_state) + 3"
    using base h1 h2 k by blast
  then have first: "fst (zhongji_wuran_jiance shili_disanci (Some shili_reader) ''8.8.8.8''
            [''142.250.72.14''] shili_state) \<noteq> Inr Weiwuran
     \<and> fst (zhongji_wuran_jiance shili_disanci (Some shili_reader) ''8.8.8.8''
            [''142.250.72.14''] shili_state) = Inr Yiwuran
     \<and> chaxun_cishu (trace (snd (zhongji_wuran_jiance shili_disanci (Some shili_reader)
            ''8.8.8.8'' [''142.250.72.14''] shili_state))) = 3"
    by (simp only: tr) simp
  have ne: "[''142.250.72.14''] \<noteq> ([] :: string list)" by simp
  have spec: "jizhun_tongguo (Some shili_reader) [''142.250.72.14'']"
    by code_simp
  have rs2: "lunci shili_haode (Some shili_reader) ''8.8.8.8'' 5 shili_state =
      [True, True, True, True, True]"
    by code_simp
  then have all: "list_all id (lunci shili_haode (Some shili_reader) ''8.8.8.8'' 5 shili_state)"
    by simp
  from zhongji_clean_iff_all_rounds
      [of shili_haode "Some shili_reader" "''8.8.8.8''" "[''142.250.72.14'']" shili_state 3]
  have clean: "fst (zhongji_wuran_jiance shili_haode (Some shili_reader) ''8.8.8.8''
            [''142.250.72.14''] shili_state) = Inr Weiwuran"
    using ne spec all by blast
  from base rs first ne spec rs2 clean show ?thesis by (intro conjI) simp_all
qed

text \<open>
  Claim C2 as stated, with the baseline check of the specification, fails for an empty
  baseline list: the check fails, yet with a database that knows Google's address and a
  server that answers with it in every round the verdict is Clean.
\<close>

theorem zhongji_clean_iff_counterexample:
  "\<not> (fst (zhongji_wuran_jiance shili_haode (Some shili_reader) ''8.8.8.8'' [] shili_state)
         = Inr Weiwuran \<longleftrightarrow>
       jizhun_tongguo (Some shili_reader) []
       \<and> list_all id (lunci shili_haode (Some shili_reader) ''8.8.8.8'' 5 shili_state))"
proof -
  have "fst (zhongji_wuran_jiance shili_haode (Some shili_reader) ''8.8.8.8'' [] shili_state)
      = Inr Weiwuran"
    by code_simp
  moreover have "\<not> jizhun_tongguo (Some shili_reader) []"
    by (simp add: jizhun_tongguo_def)
  ultimately show ?thesis by simp
qed

text \<open>
  Claim C1, as amended. With an empty baseline list the baseline check passes vacuously and
  the rounds are run: the first round is always issued, and the verdict is Clean when all
  five rounds pass and Polluted otherwise. The verdict is Polluted with no resolver built
  and no query sent when one of the first three baseline addresses fails classification.
\<close>

theorem zhongji_empty_baseline_runs_rounds:
  "(fst (zhongji_wuran_jiance E reader server [] s) = Inr Weiwuran \<longleftrightarrow>
      list_all id (lunci E reader server 5 s))
   \<and> (\<not> list_all id (lunci E reader server 5 s) \<longrightarrow>
        fst (zhongji_wuran_jiance E reader server [] s) = Inr Yiwuran)
   \<and> chaxun_cishu (trace s) + 1 \<le>
        chaxun_cishu (trace (snd (zhongji_wuran_jiance E reader server [] s)))
   \<and> ((\<exists>ip \<in> set (take 3 ips). \<not> jiancha_google_ip reader ip) \<longrightarrow>
        zhongji_wuran_jiance E reader server ips s = (Inr Yiwuran, s))"
proof (intro conjI impI)
  have run: "zhongji_wuran_jiance E reader server [] s =
      yanzheng_xunhuan E reader server [0..<5] 0 s"
    by (simp add: zhongji_wuran_jiance_def)
  show "fst (zhongji_wuran_jiance E reader server [] s) = Inr Weiwuran \<longleftrightarrow>
      list_all id (lunci E reader server 5 s)"
    by (simp add: run xunhuan_fst)
  show "chaxun_cishu (trace s) + 1 \<le>
        chaxun_cishu (trace (snd (zhongji_wuran_jiance E reader server [] s)))"
    by (simp add: run xunhuan_queries)
  show "fst (zhongji_wuran_jiance E reader server [] s) = Inr Yiwuran"
    if "\<not> list_all id (lunci E reader server 5 s)"
    using that by (simp add: run xunhuan_fst)
  show "zhongji_wuran_jiance E reader server ips s = (Inr Yiwuran, s)"
    if "\<exists>ip \<in> set (take 3 ips). \<not> jiancha_google_ip reader ip"
    using that
    by (auto simp: zhongji_wuran_jiance_def jizhun_jiancha_all list_all_iff)
qed

theorem zhongji_empty_baseline_runs_rounds_witness:
  "\<not> list_all id (lunci shili_disanci (Some shili_reader) ''8.8.8.8'' 5 shili_state)
   \<and> fst (zhongji_wuran_jiance shili_disanci (Some shili_reader) ''8.8.8.8'' [] shili_state)
       = Inr Yiwuran
   \<and> \<not> jiancha_google_ip (Some shili_reader) ''203.0.113.7''
   \<and> zhongji_wuran_jiance shili_disanci (Some shili_reader) ''8.8.8.8'' [''203.0.113.7'']
       shili_state = (Inr Yiwuran, shili_state)"
proof -
  have rs: "lunci shili_disanci (Some shili_reader) ''8.8.8.8'' 5 shili_state =
      [True, True, False, True, True]"
    by code_simp
  have notall: "\<not> list_all id (lunci shili_disanci (Some shili_reader) ''8.8.8.8'' 5 shili_state)"
    unfolding rs by simp
  have bad: "\<not> jiancha_google_ip (Some shili_reader) ''203.0.113.7''"
    by code_simp
  then have ex: "\<exists>ip \<in> set (take 3 [''203.0.113.7'']). \<not> jiancha_google_ip (Some shili_reader) ip"
    by simp
  from zhongji_empty_baseline_runs_rounds
      [of shili_disanci "Some shili_reader" "''8.8.8.8''" shili_state "[''203.0.113.7'']"]
  show ?thesis
    using notall bad ex by blast
qed

text \<open>
  Claim C1 as stated fails: with an empty baseline list, a database that knows Google's
  address and a server that answers with it every time, the verdict is Clean and five
  queries are sent.
\<close>

theorem zhongji_empty_baseline_counterexample:
  "fst (zhongji_wuran_jiance shili_haode (Some shili_reader) ''8.8.8.8'' [] shili_state)
     = Inr Weiwuran
   \<and> chaxun_cishu (trace (snd (zhongji_wuran_jiance shili_haode (Some shili_reader)
        ''8.8.8.8'' [] shili_state))) = 5
   \<and> trace (snd (zhongji_wuran_jiance shili_haode (Some shili_reader) ''8.8.8.8'' []
        shili_state)) \<noteq> trace shili_state"
  by code_simp

section \<open>Facts about the benchmark runner\<close>

lemma ceshi_xunhuan_step:
  "ceshi_xunhuan E server ip_mode v4 tmo xiaxian (d # rest) (z, c, ys, m) s =
     (let out = fst (zhixing_dns_chaxun E d server (xuan_rtype ip_mode v4) tmo s);
          s1 = snd (zhixing_dns_chaxun E d server (xuan_rtype ip_mode v4) tmo s)
      in if yanchi out < xiaxian then (None, s1)
         else ceshi_xunhuan E server ip_mode v4 tmo xiaxian rest
                (z + 1, (if chenggong out then c + 1 else c),
                 (if chenggong out then ys @ [yanchi out] else ys),
                 m(d \<mapsto> snd (snd out))) s1)"
  by (simp add: yanchi_def chenggong_def Let_def split: prod.splits)

lemma quanbu_chaxun_step:
  "quanbu_chaxun E server rtype tmo (d # rest) s =
     fst (zhixing_dns_chaxun E d server rtype tmo s)
       # quanbu_chaxun E server rtype tmo rest (snd (zhixing_dns_chaxun E d server rtype tmo s))"
  by (simp split: prod.splits)

lemma length_quanbu_chaxun [simp]:
  "length (quanbu_chaxun E server rtype tmo domains s) = length domains"
  by (induction domains arbitrary: s) (simp_all split: prod.splits)

lemma ceshi_xunhuan_complete:
  "\<forall>out \<in> set (quanbu_chaxun E server (xuan_rtype ip_mode v4) tmo domains s).
      \<not> yanchi out < xiaxian \<Longrightarrow>
   map_option sanxiang
     (fst (ceshi_xunhuan E server ip_mode v4 tmo xiaxian domains (z, c, ys, m) s)) =
     Some (z + length domains,
           c + length (filter chenggong
                 (quanbu_chaxun E server (xuan_rtype ip_mode v4) tmo domains s)),
           ys @ map yanchi (filter chenggong
                 (quanbu_chaxun E server (xuan_rtype ip_mode v4) tmo domains s)))"
proof (induction domains arbitrary: z c ys m s)
  case Nil
  then show ?case by (simp add: sanxiang_def)
next
  case (Cons d rest)
  let ?out = "fst (zhixing_dns_chaxun E d server (xuan_rtype ip_mode v4) tmo s)"
  let ?s1 = "snd (zhixing_dns_chaxun E d server (xuan_rtype ip_mode v4) tmo s)"
  from Cons.prems have slow: "\<not> yanchi ?out < xiaxian"
    and rest: "\<forall>out \<in> set (quanbu_chaxun E server (xuan_rtype ip_mode v4) tmo rest ?s1).
      \<not> yanchi out < xiaxian"
    by (simp_all add: quanbu_chaxun_step del: quanbu_chaxun.simps)
  show ?case
    unfolding ceshi_xunhuan_step quanbu_chaxun_step
    using slow by (simp add: Let_def Cons.IH [OF rest])
qed

lemma ceshi_xunhuan_abort:
  "\<exists>out \<in> set (quanbu_chaxun E server (xuan_rtype ip_mode v4) tmo domains s).
      yanchi out < xiaxian \<Longrightarrow>
   fst (ceshi_xunhuan E server ip_mode v4 tmo xiaxian domains acc s) = None"
proof (induction domains arbitrary: acc s)
  case Nil
  then show ?case by simp
next
  case (Cons d rest)
  obtain z c ys m where acc: "acc = (z, c, ys, m)" by (cases acc) auto
  let ?out = "fst (zhixing_dns_chaxun E d server (xuan_rtype ip_mode v4) tmo s)"
  let ?s1 = "snd (zhixing_dns_chaxun E d server (xuan_rtype ip_mode v4) tmo s)"
  show ?case
  proof (cases "yanchi ?out < xiaxian")
    case True
    then show ?thesis
      unfolding acc
      by (simp add: ceshi_xunhuan_step Let_def del: ceshi_xunhuan.simps(2))
  next
    case False
    with Cons.prems have
      "\<exists>out \<in> set (quanbu_chaxun E server (xuan_rtype ip_mode v4) tmo rest ?s1).
         yanchi out < xiaxian"
      by (simp add: quanbu_chaxun_step del: quanbu_chaxun.simps)
    from Cons.IH [OF this] False show ?thesis
      unfolding acc
      by (simp add: ceshi_xunhuan_step Let_def del: ceshi_xunhuan.simps(2))
  qed
qed

lemma ceshi_xunhuan_abort_state:
  "\<exists>out \<in> set (quanbu_chaxun E server (xuan_rtype ip_mode v4) tmo domains s).
      yanchi out < xiaxian \<Longrightarrow>
   ceshi_xunhuan E server ip_mode v4 tmo xiaxian
         (take (Suc (length (takeWhile (\<lambda>out. \<not> yanchi out < xiaxian)
            (quanbu_chaxun E server (xuan_rtype ip_mode v4) tmo domains s)))) domains) acc s
   = ceshi_xunhuan E server ip_mode v4 tmo xiaxian domains acc s"
proof (induction domains arbitrary: acc s)
  case Nil
  then show ?case by simp
next
  case (Cons d rest)
  obtain z c ys m where acc: "acc = (z, c, ys, m)" by (cases acc) auto
  let ?out = "fst (zhixing_dns_chaxun E d server (xuan_rtype ip_mode v4) tmo s)"
  let ?s1 = "snd (zhixing_dns_chaxun E d server (xuan_rtype ip_mode v4) tmo s)"
  show ?case
  proof (cases "yanchi ?out < xiaxian")
    case True
    then show ?thesis
      unfolding acc
      by (simp add: ceshi_xunhuan_step quanbu_chaxun_step Let_def
            del: ceshi_xunhuan.simps(2) quanbu_chaxun.simps(2))
  next
    case False
    with Cons.prems have
      "\<exists>out \<in> set (quanbu_chaxun E server (xuan_rtype ip_mode v4) tmo rest ?s1).
         yanchi out < xiaxian"
      by (simp add: quanbu_chaxun_step del: quanbu_chaxun.simps)
    from Cons.IH [OF this] False show ?thesis
      unfolding acc
      by (simp add: ceshi_xunhuan_step quanbu_chaxun_step Let_def
            del: ceshi_xunhuan.simps(2) quanbu_chaxun.simps(2))
  qed
qed

lemma foldl_min_Min: "foldl min (y::rat) ys = Min (set (y # ys))"
proof -
  have "foldl min y ys = fold min ys y"
    by (simp add: foldl_conv_fold min.commute)
  then show ?thesis by (simp only: Min.set_eq_fold)
qed

lemma foldl_max_Max: "foldl max (y::rat) ys = Max (set (y # ys))"
proof -
  have "foldl max y ys = fold max ys y"
    by (simp add: foldl_conv_fold max.commute)
  then show ?thesis by (simp only: Max.set_eq_fold)
qed


lemma ceshi_dange_fields:
  assumes "fst (ceshi_dange_dns E server domains ip_mode tmo xiaxian kaiqi s) = Some r"
  shows "dns_wuran r = (if kaiqi \<and> chenggonglv r > 4 / 10 then Daijiance else Weiceshi)"
    and "dns_server r = server"
  using assms
  by (auto simp: ceshi_dange_dns_def Let_def split: prod.splits option.splits if_splits list.splits)


lemma zhixing_queries_le:
  "chaxun_cishu (trace (snd (zhixing_dns_chaxun E d server rtype tmo s)))
     \<le> chaxun_cishu (trace s) + 1"
  by (auto simp: zhixing_dns_chaxun_def huoqu_resolver_def Let_def jilu_def chaxun_cishu_def
      split: prod.splits option.splits sum.splits)

lemma ceshi_xunhuan_queries_le:
  "chaxun_cishu (trace (snd (ceshi_xunhuan E server ip_mode v4 tmo xiaxian domains acc s)))
     \<le> chaxun_cishu (trace s) + length domains"
proof (induction domains arbitrary: acc s)
  case Nil
  then show ?case by simp
next
  case (Cons d rest)
  obtain z c ys m where acc: "acc = (z, c, ys, m)" by (cases acc) auto
  let ?s1 = "snd (zhixing_dns_chaxun E d server (xuan_rtype ip_mode v4) tmo s)"
  have one: "chaxun_cishu (trace ?s1) \<le> chaxun_cishu (trace s) + 1"
    by (rule zhixing_queries_le)
  have "\<And>acc'. chaxun_cishu (trace (snd (ceshi_xunhuan E server ip_mode v4 tmo xiaxian rest
            acc' ?s1))) \<le> chaxun_cishu (trace s) + 1 + length rest"
    using Cons.IH [of _ ?s1] one by (meson add_le_mono1 le_trans)
  then show ?case
    unfolding acc
    using one
    by (simp add: ceshi_xunhuan_step Let_def del: ceshi_xunhuan.simps(2))
qed

lemma ceshi_dange_queries_le:
  "chaxun_cishu (trace (snd (ceshi_dange_dns E server domains ip_mode tmo xiaxian kaiqi s)))
     \<le> chaxun_cishu (trace s) + length domains"
proof -
  have "snd (ceshi_dange_dns E server domains ip_mode tmo xiaxian kaiqi s) =
      snd (ceshi_xunhuan E server ip_mode
             (case ip_address E server of None \<Rightarrow> True | Some v4 \<Rightarrow> v4) tmo xiaxian domains
             (0, 0, [], Map.empty) s)"
    by (simp add: ceshi_dange_dns_def Let_def split: prod.splits option.splits list.splits)
  then show ?thesis by (simp add: ceshi_xunhuan_queries_le)
qed

text \<open>
  Claim C4. If any query of the candidate's run reports a latency below the threshold,
  whether it succeeded or failed, the run returns None; it is the run over the domains up to
  and including the first such query, so no domain after it is queried, whatever the other
  queries would have returned.
\<close>

theorem ceshi_abort_on_fast_query:
  assumes "\<exists>out \<in> set (guancha E server ip_mode tmo domains s). yanchi out < xiaxian"
  shows "fst (ceshi_dange_dns E server domains ip_mode tmo xiaxian kaiqi s) = None
    \<and> ceshi_dange_dns E server domains ip_mode tmo xiaxian kaiqi s =
        ceshi_dange_dns E server
          (take (Suc (length (takeWhile (\<lambda>out. \<not> yanchi out < xiaxian)
             (guancha E server ip_mode tmo domains s)))) domains)
          ip_mode tmo xiaxian kaiqi s
    \<and> chaxun_cishu (trace (snd (ceshi_dange_dns E server domains ip_mode tmo xiaxian kaiqi s)))
        \<le> chaxun_cishu (trace s)
            + Suc (length (takeWhile (\<lambda>out. \<not> yanchi out < xiaxian)
                (guancha E server ip_mode tmo domains s)))"
proof -
  let ?v4 = "case ip_address E server of None \<Rightarrow> True | Some v4 \<Rightarrow> v4"
  let ?k = "length (takeWhile (\<lambda>out. \<not> yanchi out < xiaxian)
             (guancha E server ip_mode tmo domains s))"
  from assms have ex:
    "\<exists>out \<in> set (quanbu_chaxun E server (xuan_rtype ip_mode ?v4) tmo domains s).
       yanchi out < xiaxian"
    by (simp add: guancha_def houxuan_rtype_def)
  have none: "fst (ceshi_xunhuan E server ip_mode ?v4 tmo xiaxian domains
                 (0, 0, [], Map.empty) s) = None"
    by (rule ceshi_xunhuan_abort [OF ex])
  have same: "ceshi_xunhuan E server ip_mode ?v4 tmo xiaxian (take (Suc ?k) domains)
                 (0, 0, [], Map.empty) s
      = ceshi_xunhuan E server ip_mode ?v4 tmo xiaxian domains (0, 0, [], Map.empty) s"
    using ceshi_xunhuan_abort_state [OF ex] by (simp add: guancha_def houxuan_rtype_def)
  have a: "fst (ceshi_dange_dns E server domains ip_mode tmo xiaxian kaiqi s) = None"
    using none by (auto simp add: ceshi_dange_dns_def Let_def split: prod.splits)
  have b: "ceshi_dange_dns E server domains ip_mode tmo xiaxian kaiqi s =
        ceshi_dange_dns E server (take (Suc ?k) domains) ip_mode tmo xiaxian kaiqi s"
    by (simp add: ceshi_dange_dns_def same)
  have "chaxun_cishu (trace (snd (ceshi_dange_dns E server (take (Suc ?k) domains) ip_mode tmo
           xiaxian kaiqi s))) \<le> chaxun_cishu (trace s) + length (take (Suc ?k) domains)"
    by (rule ceshi_dange_queries_le)
  then have c: "chaxun_cishu (trace (snd (ceshi_dange_dns E server domains ip_mode tmo xiaxian
           kaiqi s))) \<le> chaxun_cishu (trace s) + Suc ?k"
    unfolding b [symmetric] by simp
  from a b c show ?thesis by blast
qed

theorem ceshi_abort_on_fast_query_witness:
  "guancha shili_dierci_kuai ''8.8.8.8'' ''4'' (3 / 10)
      [''google.com'', ''facebook.com'', ''amazon.com''] shili_state =
     [(True, 20, [''142.250.72.14'']), (True, 2, [''142.250.72.14'']),
      (True, 20, [''142.250.72.14''])]
   \<and> fst (ceshi_dange_dns shili_dierci_kuai ''8.8.8.8''
        [''google.com'', ''facebook.com'', ''amazon.com''] ''4'' (3 / 10) 10 True shili_state)
      = None
   \<and> chaxun_cishu (trace (snd (ceshi_dange_dns shili_dierci_kuai ''8.8.8.8''
        [''google.com'', ''facebook.com'', ''amazon.com''] ''4'' (3 / 10) 10 True shili_state)))
      \<le> 2"
proof -
  have outs: "guancha shili_dierci_kuai ''8.8.8.8'' ''4'' (3 / 10)
      [''google.com'', ''facebook.com'', ''amazon.com''] shili_state =
     [(True, 20, [''142.250.72.14'']), (True, 2, [''142.250.72.14'']),
      (True, 20, [''142.250.72.14''])]"
    by code_simp
  have fast: "\<exists>out \<in> set (guancha shili_dierci_kuai ''8.8.8.8'' ''4'' (3 / 10)
      [''google.com'', ''facebook.com'', ''amazon.com''] shili_state). yanchi out < 10"
    unfolding outs by (simp add: yanchi_def)
  have tr: "chaxun_cishu (trace shili_state) = 0"
    by (simp add: shili_state_def chaxun_cishu_def)
  note th = ceshi_abort_on_fast_query [OF fast, of True]
  have a: "fst (ceshi_dange_dns shili_dierci_kuai ''8.8.8.8''
        [''google.com'', ''facebook.com'', ''amazon.com''] ''4'' (3 / 10) 10 True shili_state)
      = None"
    by (rule th [THEN conjunct1])
  have "chaxun_cishu (trace (snd (ceshi_dange_dns shili_dierci_kuai ''8.8.8.8''
        [''google.com'', ''facebook.com'', ''amazon.com''] ''4'' (3 / 10) 10 True shili_state)))
      \<le> chaxun_cishu (trace shili_state)
            + Suc (length (takeWhile (\<lambda>out. \<not> yanchi out < 10)
                (guancha shili_dierci_kuai ''8.8.8.8'' ''4'' (3 / 10)
                   [''google.com'', ''facebook.com'', ''amazon.com''] shili_state)))"
    by (rule th [THEN conjunct2, THEN conjunct2])
  then have c: "chaxun_cishu (trace (snd (ceshi_dange_dns shili_dierci_kuai ''8.8.8.8''
        [''google.com'', ''facebook.com'', ''amazon.com''] ''4'' (3 / 10) 10 True shili_state)))
      \<le> 2"
    unfolding outs tr by (simp add: yanchi_def)
  from outs a c show ?thesis by (intro conjI)
qed

text \<open>
  Claim C5. For a run in which no query is below the threshold: when no query succeeded
  the result is None; otherwise it is a record whose success rate is the number of
  successful queries over the number of domains, and whose average, least and greatest
  latency are taken over the successful queries only.
\<close>

theorem ceshi_complete_statistics:
  assumes "\<forall>out \<in> set (guancha E server ip_mode tmo domains s). \<not> yanchi out < xiaxian"
  shows "(filter chenggong (guancha E server ip_mode tmo domains s) = [] \<longrightarrow>
            fst (ceshi_dange_dns E server domains ip_mode tmo xiaxian kaiqi s) = None)
    \<and> (filter chenggong (guancha E server ip_mode tmo domains s) \<noteq> [] \<longrightarrow>
         (\<exists>r. fst (ceshi_dange_dns E server domains ip_mode tmo xiaxian kaiqi s) = Some r
            \<and> chenggonglv r =
                of_nat (length (filter chenggong (guancha E server ip_mode tmo domains s)))
                  / of_nat (length domains)
            \<and> pingjun_yanchi_ms r =
                sum_list (map yanchi (filter chenggong (guancha E server ip_mode tmo domains s)))
                  / of_nat (length (filter chenggong (guancha E server ip_mode tmo domains s)))
            \<and> zuixiao_yanchi_ms r =
                Min (set (map yanchi (filter chenggong (guancha E server ip_mode tmo domains s))))
            \<and> zuida_yanchi_ms r =
                Max (set (map yanchi (filter chenggong
                  (guancha E server ip_mode tmo domains s))))))"
proof -
  let ?v4 = "case ip_address E server of None \<Rightarrow> True | Some v4 \<Rightarrow> v4"
  let ?outs = "guancha E server ip_mode tmo domains s"
  let ?succ = "filter chenggong ?outs"
  let ?loop = "ceshi_xunhuan E server ip_mode ?v4 tmo xiaxian domains (0, 0, [], Map.empty) s"
  have outs: "?outs = quanbu_chaxun E server (xuan_rtype ip_mode ?v4) tmo domains s"
    by (simp add: guancha_def houxuan_rtype_def)
  from assms have slow:
    "\<forall>out \<in> set (quanbu_chaxun E server (xuan_rtype ip_mode ?v4) tmo domains s).
       \<not> yanchi out < xiaxian"
    by (simp add: outs)
  have "map_option sanxiang (fst ?loop) =
      Some (length domains, length ?succ, map yanchi ?succ)"
    using ceshi_xunhuan_complete [OF slow, of 0 0 "[]" Map.empty] by (simp add: outs)
  then obtain m where "fst ?loop = Some (length domains, length ?succ, map yanchi ?succ, m)"
    by (auto simp: sanxiang_def split: prod.splits)
  then obtain s1 where
    loop: "?loop = (Some (length domains, length ?succ, map yanchi ?succ, m), s1)"
    by (cases ?loop) auto
  have empty: "fst (ceshi_dange_dns E server domains ip_mode tmo xiaxian kaiqi s) = None"
    if "?succ = []"
    using that loop by (simp add: ceshi_dange_dns_def)
  have full: "\<exists>r. fst (ceshi_dange_dns E server domains ip_mode tmo xiaxian kaiqi s) = Some r
            \<and> chenggonglv r = of_nat (length ?succ) / of_nat (length domains)
            \<and> pingjun_yanchi_ms r = sum_list (map yanchi ?succ) / of_nat (length ?succ)
            \<and> zuixiao_yanchi_ms r = Min (set (map yanchi ?succ))
            \<and> zuida_yanchi_ms r = Max (set (map yanchi ?succ))"
    if ne: "?succ \<noteq> []"
  proof -
    obtain y ys where lat: "map yanchi ?succ = y # ys"
      using ne by (cases "map yanchi ?succ") auto
    have "domains \<noteq> []"
      using ne by (auto simp: outs)
    then have pos: "length domains \<noteq> 0" by simp
    have len: "length ?succ = length (y # ys)"
      using lat by (metis length_map)
    show ?thesis
      using loop pos
      by (simp add: ceshi_dange_dns_def lat len foldl_min_Min foldl_max_Max
          del: One_nat_def)
  qed
  from empty full show ?thesis by blast
qed


theorem ceshi_complete_statistics_witness:
  "guancha shili_dierci_chaoshi ''8.8.8.8'' ''4'' (3 / 10)
      [''google.com'', ''facebook.com'', ''amazon.com''] shili_state =
     [(True, 20, [''142.250.72.14'']), (False, 20, []), (True, 20, [''142.250.72.14''])]
   \<and> map_option chenggonglv (fst (ceshi_dange_dns shili_dierci_chaoshi ''8.8.8.8''
        [''google.com'', ''facebook.com'', ''amazon.com''] ''4'' (3 / 10) 10 True shili_state))
      = Some (2 / 3)
   \<and> map_option pingjun_yanchi_ms (fst (ceshi_dange_dns shili_dierci_chaoshi ''8.8.8.8''
        [''google.com'', ''facebook.com'', ''amazon.com''] ''4'' (3 / 10) 10 True shili_state))
      = Some 20
   \<and> guancha shili_quan_chaoshi ''8.8.8.8'' ''4'' (3 / 10) [''google.com''] shili_state =
        [(False, 20, [])]
   \<and> fst (ceshi_dange_dns shili_quan_chaoshi ''8.8.8.8'' [''google.com''] ''4'' (3 / 10) 10
        True shili_state) = None"
proof -
  let ?outs = "guancha shili_dierci_chaoshi ''8.8.8.8'' ''4'' (3 / 10)
      [''google.com'', ''facebook.com'', ''amazon.com''] shili_state"
  have outs: "?outs =
     [(True, 20, [''142.250.72.14'']), (False, 20, []), (True, 20, [''142.250.72.14''])]"
    by code_simp
  have slow: "\<forall>out \<in> set ?outs. \<not> yanchi out < 10"
    unfolding outs by (simp add: yanchi_def)
  have ne: "filter chenggong ?outs \<noteq> []"
    unfolding outs by (simp add: chenggong_def)
  from ceshi_complete_statistics [OF slow, of True] ne
  obtain r where r: "fst (ceshi_dange_dns shili_dierci_chaoshi ''8.8.8.8''
        [''google.com'', ''facebook.com'', ''amazon.com''] ''4'' (3 / 10) 10 True shili_state)
        = Some r"
    and rate: "chenggonglv r = of_nat (length (filter chenggong ?outs))
         / of_nat (length [''google.com'', ''facebook.com'', ''amazon.com''])"
    and avg: "pingjun_yanchi_ms r = sum_list (map yanchi (filter chenggong ?outs))
         / of_nat (length (filter chenggong ?outs))"
    by blast
  have rate': "chenggonglv r = 2 / 3"
    using rate unfolding outs by (simp add: chenggong_def)
  have avg': "pingjun_yanchi_ms r = 20"
    using avg unfolding outs by (simp add: chenggong_def yanchi_def)
  let ?outs2 = "guancha shili_quan_chaoshi ''8.8.8.8'' ''4'' (3 / 10) [''google.com'']
      shili_state"
  have outs2: "?outs2 = [(False, 20, [])]"
    by code_simp
  have slow2: "\<forall>out \<in> set ?outs2. \<not> yanchi out < 10"
    unfolding outs2 by (simp add: yanchi_def)
  have e2: "filter chenggong ?outs2 = []"
    unfolding outs2 by (simp add: chenggong_def)
  have none: "fst (ceshi_dange_dns shili_quan_chaoshi ''8.8.8.8'' [''google.com''] ''4''
        (3 / 10) 10 True shili_state) = None"
    using ceshi_complete_statistics [OF slow2, of True] e2 by blast
  show ?thesis
    using outs outs2 none by (simp add: r rate' avg')
qed

text \<open>
  Claim C6, as amended. A record produced by the benchmark runner is labelled pending
  exactly when the pollution-check flag passed to the runner is on and the success rate
  exceeds 0.4; otherwise it is labelled not tested.
\<close>

theorem ceshi_label_rule:
  assumes "fst (ceshi_dange_dns E server domains ip_mode tmo xiaxian kaiqi s) = Some r"
  shows "(dns_wuran r = Daijiance \<longleftrightarrow> kaiqi \<and> chenggonglv r > 4 / 10)
       \<and> (dns_wuran r \<noteq> Daijiance \<longrightarrow> dns_wuran r = Weiceshi)"
  using ceshi_dange_fields(1) [OF assms] by simp

theorem ceshi_label_rule_witness:
  "map_option chenggonglv (fst (ceshi_dange_dns shili_haode ''8.8.8.8'' [''google.com''] ''4''
      (3 / 10) 10 True shili_state)) = Some 1
   \<and> map_option dns_wuran (fst (ceshi_dange_dns shili_haode ''8.8.8.8'' [''google.com''] ''4''
      (3 / 10) 10 True shili_state)) = Some Daijiance"
proof -
  have rate: "map_option chenggonglv (fst (ceshi_dange_dns shili_haode ''8.8.8.8''
      [''google.com''] ''4'' (3 / 10) 10 True shili_state)) = Some 1"
    by code_simp
  then obtain r where r: "fst (ceshi_dange_dns shili_haode ''8.8.8.8''
      [''google.com''] ''4'' (3 / 10) 10 True shili_state) = Some r"
    and one: "chenggonglv r = 1"
    by auto
  from ceshi_label_rule [OF r] one have "dns_wuran r = Daijiance" by simp
  with rate r show ?thesis by simp
qed

text \<open>
  Claim C6 as stated fails for a runner called with the flag off: the success rate is 1 and
  the label is not tested.
\<close>

theorem ceshi_label_counterexample:
  "map_option chenggonglv (fst (ceshi_dange_dns shili_haode ''8.8.8.8'' [''google.com''] ''4''
      (3 / 10) 10 False shili_state)) = Some 1
   \<and> map_option dns_wuran (fst (ceshi_dange_dns shili_haode ''8.8.8.8'' [''google.com''] ''4''
      (3 / 10) 10 False shili_state)) = Some Weiceshi"
  by code_simp

text \<open>
  Claim C9. Whatever exception the construction of the resolver or the resolution raises,
  the executor returns (False, elapsed milliseconds between its two clock readings, []);
  the exception itself does not appear in the result.
\<close>

theorem zhixing_failure_uniform:
  "(huoqu_resolver E server tmo s = (Inl e, s1) \<longrightarrow>
      zhixing_dns_chaxun E domain server rtype tmo s =
        ((False, (perf_counter E (world s1) - perf_counter E (world s)) * 1000, []), s1))
   \<and> (huoqu_resolver E server tmo s = (Inr r, s1)
        \<and> resolve E r domain rtype (world s1) = (Inl e, w) \<longrightarrow>
      zhixing_dns_chaxun E domain server rtype tmo s =
        ((False, (perf_counter E w - perf_counter E (world s)) * 1000, []),
         (jilu (Resolve r domain rtype) s1)\<lparr>world := w\<rparr>))"
  by (simp add: zhixing_dns_chaxun_def Let_def jilu_def)

theorem zhixing_failure_uniform_witness:
  "fst (huoqu_resolver shili_wu_peizhi ''8.8.8.8'' (3 / 10) shili_state)
      = Inl NoResolverConfiguration
   \<and> fst (zhixing_dns_chaxun shili_wu_peizhi ''google.com'' ''8.8.8.8'' ''A'' (3 / 10)
        shili_state) = (False, 0, [])
   \<and> fst (resolve shili_quan_chaoshi
        (the_resolver (fst (huoqu_resolver shili_quan_chaoshi ''8.8.8.8'' (3 / 10) shili_state)))
        ''google.com'' ''A''
        (world (snd (huoqu_resolver shili_quan_chaoshi ''8.8.8.8'' (3 / 10) shili_state))))
      = Inl Timeout
   \<and> fst (zhixing_dns_chaxun shili_quan_chaoshi ''google.com'' ''8.8.8.8'' ''A'' (3 / 10)
        shili_state) = (False, 20, [])"
proof -
  let ?h1 = "huoqu_resolver shili_wu_peizhi ''8.8.8.8'' (3 / 10) shili_state"
  have f1: "fst ?h1 = Inl NoResolverConfiguration" by code_simp
  then have p1: "?h1 = (Inl NoResolverConfiguration, snd ?h1)"
    by (simp add: prod_eq_iff)
  have c1: "perf_counter shili_wu_peizhi (world (snd ?h1)) = 0"
    "perf_counter shili_wu_peizhi (world shili_state) = 0"
    by code_simp+
  from zhixing_failure_uniform
    [where E = shili_wu_peizhi and server = "''8.8.8.8''" and tmo = "3 / 10"
      and s = shili_state and e = NoResolverConfiguration and ?s1.0 = "snd ?h1"
      and domain = "''google.com''" and rtype = "''A''", THEN conjunct1] p1
  have a: "fst (zhixing_dns_chaxun shili_wu_peizhi ''google.com'' ''8.8.8.8'' ''A'' (3 / 10)
        shili_state) = (False, 0, [])"
    by (simp add: c1)
  let ?h2 = "huoqu_resolver shili_quan_chaoshi ''8.8.8.8'' (3 / 10) shili_state"
  let ?r = "the_resolver (fst ?h2)"
  have f2: "fst ?h2 = Inr ?r" by code_simp
  then have p2: "?h2 = (Inr ?r, snd ?h2)"
    by (simp add: prod_eq_iff)
  let ?q = "resolve shili_quan_chaoshi ?r ''google.com'' ''A'' (world (snd ?h2))"
  have f3: "fst ?q = Inl Timeout" by code_simp
  then have p3: "?q = (Inl Timeout, snd ?q)"
    by (simp add: prod_eq_iff)
  have c2: "perf_counter shili_quan_chaoshi (snd ?q) = 1 / 50"
    "perf_counter shili_quan_chaoshi (world shili_state) = 0"
    by code_simp+
  from zhixing_failure_uniform
    [where E = shili_quan_chaoshi and server = "''8.8.8.8''" and tmo = "3 / 10"
      and s = shili_state and e = Timeout and ?s1.0 = "snd ?h2" and r = ?r
      and domain = "''google.com''" and rtype = "''A''" and w = "snd ?q", THEN conjunct2]
    p2 p3
  have b: "fst (zhixing_dns_chaxun shili_quan_chaoshi ''google.com'' ''8.8.8.8'' ''A'' (3 / 10)
        shili_state) = (False, 20, [])"
    by (simp add: c2)
  from f1 a f3 b show ?thesis by (intro conjI)
qed

section \<open>Facts about the resolvers\<close>

lemma huoqu_resolver_new_fields:
  assumes "resolvers s (server, tmo) = None"
    and "fst (huoqu_resolver E server tmo s) = Inr r"
  shows "nameservers r = [server] \<and> timeout r = tmo \<and> lifetime r = tmo \<and> cache r = None"
  using assms
  by (auto simp: huoqu_resolver_def Let_def Resolver_def read_resolv_conf_def reset_def
      split: prod.splits sum.splits if_splits)

lemma huoqu_resolver_new_search:
  assumes "resolvers s (server, tmo) = None"
    and "sysconf E (world s) = (Inr c, w)"
    and "conf_nameservers c \<noteq> []"
  shows "fst (huoqu_resolver E server tmo s) =
     Inr \<lparr>nameservers = [server], search = conf_search c, timeout = tmo, lifetime = tmo,
          cache = None\<rparr>"
  using assms
  by (simp add: huoqu_resolver_def Let_def Resolver_def read_resolv_conf_def reset_def
      jilu_def)

text \<open>
  Claim C10 fails on the benchmark path. The per-round resolver of the verification path is
  built with \<open>configure=False\<close> and is the same on every machine; the per-worker resolver
  of the benchmark path is built by \<^verbatim>\<open>Resolver()\<close>, which reads the system's resolver
  configuration: on a machine whose configuration names the search domain "lan" the
  resolver carries it, and on a machine whose configuration names no server the
  construction raises. Both resolvers query the candidate only, use one value for timeout
  and lifetime, and have no cache.
\<close>

theorem huoqu_resolver_reads_system_configuration:
  "fst (huoqu_resolver shili_haode ''8.8.8.8'' (3 / 10) shili_state) =
     Inr \<lparr>nameservers = [''8.8.8.8''], search = [''lan''], timeout = 3 / 10,
          lifetime = 3 / 10, cache = None\<rparr>
   \<and> fst (huoqu_resolver shili_wu_peizhi ''8.8.8.8'' (3 / 10) shili_state) =
       Inl NoResolverConfiguration
   \<and> fst (chuangjian_ganjing_resolver shili_haode ''8.8.8.8'' (3 / 10) 0) =
       Inr \<lparr>nameservers = [''8.8.8.8''], search = [], timeout = 3 / 10,
            lifetime = 3 / 10, cache = None\<rparr>
   \<and> fst (chuangjian_ganjing_resolver shili_wu_peizhi ''8.8.8.8'' (3 / 10) 0) =
       Inr \<lparr>nameservers = [''8.8.8.8''], search = [], timeout = 3 / 10,
            lifetime = 3 / 10, cache = None\<rparr>"
  by code_simp

section \<open>Facts about the orchestration\<close>

lemma str_less_rank:
  "str_less (label_str a) (label_str b) \<longleftrightarrow> label_rank a < label_rank b"
  by (cases a; cases b) simp_all

lemma pai_zai_qian_asym: "pai_zai_qian a b \<Longrightarrow> \<not> pai_zai_qian b a"
  by (auto simp: pai_zai_qian_def str_less_rank)

lemma pai_zai_qian_negtrans:
  "\<not> pai_zai_qian b a \<Longrightarrow> \<not> pai_zai_qian c b \<Longrightarrow> \<not> pai_zai_qian c a"
  by (auto simp: pai_zai_qian_def str_less_rank)

lemma set_charu [simp]: "set (charu x ys) = insert x (set ys)"
  by (induction ys) auto

lemma set_sort_values [simp]: "set (sort_values rs) = set rs"
  by (induction rs) (simp_all add: sort_values_def)

lemma sorted_charu:
  "sorted_wrt (\<lambda>a b. \<not> pai_zai_qian b a) ys \<Longrightarrow>
   sorted_wrt (\<lambda>a b. \<not> pai_zai_qian b a) (charu x ys)"
proof (induction ys)
  case Nil
  then show ?case by simp
next
  case (Cons y ys)
  show ?case
  proof (cases "pai_zai_qian y x")
    case True
    with Cons show ?thesis
      by (auto dest: pai_zai_qian_asym)
  next
    case False
    with Cons.prems show ?thesis
      using pai_zai_qian_negtrans [of y x] by auto
  qed
qed

lemma sorted_sort_values:
  "sorted_wrt (\<lambda>a b. \<not> pai_zai_qian b a) (sort_values rs)"
  by (induction rs) (simp_all add: sort_values_def sorted_charu)


lemma jizhun_ceshi_hege:
  "p \<in> set (jizhun_ceshi E doms mode tmo mind True tasks) \<Longrightarrow>
   dns_wuran (fst p) = (if chenggonglv (fst p) > 4 / 10 then Daijiance else Weiceshi)"
proof (induction tasks)
  case Nil
  then show ?case by simp
next
  case (Cons t rest)
  obtain dns s sv where t: "t = (dns, s, sv)" by (cases t) auto
  show ?case
  proof (cases "fst (ceshi_dange_dns E dns doms mode tmo mind True s)")
    case None
    with Cons t show ?thesis by simp
  next
    case (Some res)
    from ceshi_dange_fields(1) [OF Some]
    have "dns_wuran res = (if chenggonglv res > 4 / 10 then Daijiance else Weiceshi)"
      by simp
    with Cons t Some show ?thesis by auto
  qed
qed

lemma zhongji_verdict:
  "fst (zhongji_wuran_jiance E reader server ips s) = Inr Weiwuran
   \<or> fst (zhongji_wuran_jiance E reader server ips s) = Inr Yiwuran"
  by (simp add: zhongji_wuran_jiance_def xunhuan_fst)

lemma xie_jielun_hege:
  assumes "dns_wuran (fst p) = (if chenggonglv (fst p) > 4 / 10 then Daijiance else Weiceshi)"
  shows "baogao_hege (fst (xie_jielun E reader p))"
proof -
  obtain r sv where p: "p = (r, sv)" by (cases p) auto
  show ?thesis
    using assms zhongji_verdict [of E reader "dns_server r" "google_ips r" sv]
    by (auto simp: p xie_jielun_def baogao_hege_def split: if_splits)
qed

lemma moren_zhuangtai_no_pending:
  "r \<in> set (moren_zhuangtai rs) \<Longrightarrow> dns_wuran r \<noteq> Daijiance"
  by (auto simp: moren_zhuangtai_def)

lemma moren_zhuangtai_hege:
  "\<forall>r \<in> set rs. baogao_hege r \<Longrightarrow> moren_zhuangtai rs = rs"
  by (induction rs) (auto simp: moren_zhuangtai_def baogao_hege_def)

lemma main_core_Inr:
  assumes "main_core E reader quanju threads doms mode tmo mind tasks = Inr report"
  shows "\<exists>rs. report = sort_values (moren_zhuangtai rs)"
  using assms
  by (auto simp: main_core_def Let_def daochu_paixu_def
      split: option.splits if_splits sum.splits)

lemma main_core_hege:
  assumes "main_core E reader quanju threads doms mode tmo mind tasks = Inr report"
  shows "\<forall>r \<in> set report. baogao_hege r"
proof -
  let ?jl = "jizhun_ceshi E doms mode tmo mind True tasks"
  from assms have flag: "quanju = Some True"
    by (auto simp: main_core_def Let_def daochu_paixu_def
        split: option.splits if_splits sum.splits)
  from assms flag obtain js where js: "wuran_jiance_jieduan E reader threads ?jl = Inr js"
    and rep: "report = sort_values (moren_zhuangtai (map fst js))"
    by (auto simp: main_core_def Let_def daochu_paixu_def split: if_splits sum.splits)
  have "\<forall>p \<in> set js. baogao_hege (fst p)"
  proof (cases "filter (\<lambda>p. dns_wuran (fst p) = Daijiance) ?jl = []")
    case True
    then have same: "js = ?jl"
      using js by (simp add: wuran_jiance_jieduan_def)
    show ?thesis
    proof
      fix p assume p: "p \<in> set js"
      then have "dns_wuran (fst p) \<noteq> Daijiance"
        using True by (auto simp: same filter_empty_conv)
      with jizhun_ceshi_hege [of p E doms mode tmo mind tasks] p
      show "baogao_hege (fst p)"
        by (auto simp: same baogao_hege_def split: if_splits)
    qed
  next
    case False
    then have "js = map (xie_jielun E reader) ?jl"
      using js by (auto simp: wuran_jiance_jieduan_def split: if_splits)
    then show ?thesis
      by (auto intro!: xie_jielun_hege jizhun_ceshi_hege)
  qed
  then have all: "\<forall>r \<in> set (map fst js). baogao_hege r" by auto
  then show ?thesis
    by (simp add: rep moren_zhuangtai_hege)
qed

lemma hege_order:
  assumes "baogao_hege a" "baogao_hege b" "\<not> pai_zai_qian b a"
  shows "shuoming_shunxu a b"
  using assms
  by (cases "dns_wuran a"; cases "dns_wuran b")
     (auto simp: baogao_hege_def pai_zai_qian_def shuoming_shunxu_def str_less_rank)

lemma label_order_of_sort:
  "str_less (label_str Yiwuran) (label_str Weiwuran)
   \<and> str_less (label_str Weiwuran) (label_str Weiceshi)"
  by simp

lemma main_never_reports:
  "main E reader threads doms mode tmo mind tasks =
     (if jizhun_ceshi E doms mode tmo mind True tasks = [] then Inl (SystemExit 1)
      else Inl (NameError ''kaiqi_wuran_jiancha''))"
  by (simp add: main_def main_core_def)

text \<open>The example of three candidates, phase by phase.\<close>

lemma shili_jizhun:
  "jizhun_ceshi shili_hunhe shili_yuming ''4'' (3 / 10) 10 True shili_renwu =
     [(\<lparr>dns_server = ''9.9.9.9'', chenggonglv = 1, pingjun_yanchi_ms = 20,
        zuixiao_yanchi_ms = 20, zuida_yanchi_ms = 20, dns_wuran = Daijiance,
        google_ips = [''142.250.72.14'']\<rparr>, shili_zhuangtai 60),
      (\<lparr>dns_server = ''1.1.1.1'', chenggonglv = 1 / 3, pingjun_yanchi_ms = 20,
        zuixiao_yanchi_ms = 20, zuida_yanchi_ms = 20, dns_wuran = Weiceshi,
        google_ips = [''203.0.113.7'']\<rparr>, shili_zhuangtai 0),
      (\<lparr>dns_server = ''8.8.8.8'', chenggonglv = 1, pingjun_yanchi_ms = 20,
        zuixiao_yanchi_ms = 20, zuida_yanchi_ms = 20, dns_wuran = Daijiance,
        google_ips = [''142.250.72.14'']\<rparr>, shili_zhuangtai 10)]"
proof -
  have b: "fst (ceshi_dange_dns shili_hunhe ''9.9.9.9'' shili_yuming ''4'' (3 / 10) 10 True
      (shili_zhuangtai 0)) = Some \<lparr>dns_server = ''9.9.9.9'', chenggonglv = 1, pingjun_yanchi_ms = 20,
        zuixiao_yanchi_ms = 20, zuida_yanchi_ms = 20, dns_wuran = Daijiance,
        google_ips = [''142.250.72.14'']\<rparr>"
    by code_simp
  have c: "fst (ceshi_dange_dns shili_hunhe ''1.1.1.1'' shili_yuming ''4'' (3 / 10) 10 True
      (shili_zhuangtai 99)) = Some \<lparr>dns_server = ''1.1.1.1'', chenggonglv = 1 / 3, pingjun_yanchi_ms = 20,
        zuixiao_yanchi_ms = 20, zuida_yanchi_ms = 20, dns_wuran = Weiceshi,
        google_ips = [''203.0.113.7'']\<rparr>"
    by code_simp
  have a: "fst (ceshi_dange_dns shili_hunhe ''8.8.8.8'' shili_yuming ''4'' (3 / 10) 10 True
      (shili_zhuangtai 0)) = Some \<lparr>dns_server = ''8.8.8.8'', chenggonglv = 1, pingjun_yanchi_ms = 20,
        zuixiao_yanchi_ms = 20, zuida_yanchi_ms = 20, dns_wuran = Daijiance,
        google_ips = [''142.250.72.14'']\<rparr>"
    by code_simp
  show ?thesis
    by (simp add: shili_renwu_def a b c)
qed

lemma shili_jielun:
  "fst (zhongji_wuran_jiance shili_hunhe (Some shili_reader) ''9.9.9.9'' [''142.250.72.14'']
      (shili_zhuangtai 60)) = Inr Yiwuran"
  "fst (zhongji_wuran_jiance shili_hunhe (Some shili_reader) ''8.8.8.8'' [''142.250.72.14'']
      (shili_zhuangtai 10)) = Inr Weiwuran"
  by code_simp+

lemma shili_main:
  "main_core shili_hunhe (Some shili_reader) (Some True) 64 shili_yuming ''4'' (3 / 10) 10
      shili_renwu =
     Inr [\<lparr>dns_server = ''8.8.8.8'', chenggonglv = 1, pingjun_yanchi_ms = 20,
        zuixiao_yanchi_ms = 20, zuida_yanchi_ms = 20, dns_wuran = Weiwuran,
        google_ips = [''142.250.72.14'']\<rparr>,
          \<lparr>dns_server = ''9.9.9.9'', chenggonglv = 1, pingjun_yanchi_ms = 20,
        zuixiao_yanchi_ms = 20, zuida_yanchi_ms = 20, dns_wuran = Yiwuran,
        google_ips = [''142.250.72.14'']\<rparr>,
          \<lparr>dns_server = ''1.1.1.1'', chenggonglv = 1 / 3, pingjun_yanchi_ms = 20,
        zuixiao_yanchi_ms = 20, zuida_yanchi_ms = 20, dns_wuran = Weiceshi,
        google_ips = [''203.0.113.7'']\<rparr>]"
  by (simp add: main_core_def shili_jizhun wuran_jiance_jieduan_def xie_jielun_def
      shili_jielun moren_zhuangtai_def daochu_paixu_def sort_values_def pai_zai_qian_def)

text \<open>
  Claim C3 fails on the program as shipped. With three valid candidates, a pool of 64
  workers, a timeout of 300 ms and a threshold of 10 ms, the benchmark phase yields usable
  records and line 311 then raises NameError: the name it reads is assigned nowhere. Were
  the name bound to True, a pool of 2 workers (a valid width) would make line 315 raise
  ValueError, the verification pool having width 2 // 4 = 0.
\<close>

theorem main_raises_name_error:
  "main shili_hunhe (Some shili_reader) 64 [''google.com''] ''4'' (3 / 10) 10 shili_renwu
     = Inl (NameError ''kaiqi_wuran_jiancha'')
   \<and> main_core shili_hunhe (Some shili_reader) (Some True) 2 [''google.com''] ''4'' (3 / 10) 10
       shili_renwu = Inl (ValueError ''max_workers must be greater than 0'')"
  by code_simp

text \<open>
  What lines 312-339 would do were the flag name bound: no record of a report is pending,
  and a report is in the order the specification names. In the program as shipped the
  name is unbound and these lines are never reached.
\<close>

lemma bound_flag_no_pending:
  "(\<forall>r \<in> set (moren_zhuangtai rs). dns_wuran r \<noteq> Daijiance)
   \<and> (main_core E reader quanju threads doms mode tmo mind tasks = Inr report \<longrightarrow>
        (\<forall>r \<in> set report. dns_wuran r \<noteq> Daijiance))"
proof (intro conjI impI ballI)
  fix r assume "r \<in> set (moren_zhuangtai rs)"
  then show "dns_wuran r \<noteq> Daijiance" by (rule moren_zhuangtai_no_pending)
next
  fix r
  assume m: "main_core E reader quanju threads doms mode tmo mind tasks = Inr report"
    and r: "r \<in> set report"
  from main_core_Inr [OF m] obtain rs' where "report = sort_values (moren_zhuangtai rs')"
    by blast
  with r have "r \<in> set (moren_zhuangtai rs')" by simp
  then show "dns_wuran r \<noteq> Daijiance" by (rule moren_zhuangtai_no_pending)
qed

lemma bound_flag_sorted:
  assumes "main_core E reader quanju threads doms mode tmo mind tasks = Inr report"
  shows "sorted_wrt shuoming_shunxu report"
proof -
  from main_core_Inr [OF assms] obtain rs where "report = sort_values (moren_zhuangtai rs)"
    by blast
  then have "sorted_wrt (\<lambda>a b. \<not> pai_zai_qian b a) report"
    by (simp add: sorted_sort_values)
  moreover have "\<forall>r \<in> set report. baogao_hege r"
    by (rule main_core_hege [OF assms])
  ultimately show ?thesis
    using sorted_wrt_mono_rel [of report "\<lambda>a b. \<not> pai_zai_qian b a" shuoming_shunxu]
      hege_order
    by blast
qed

text \<open>
  Claim C7 fails on the program as shipped, by the defect of claim C3. The benchmark phase
  of the three candidates leaves two records pending; line 311 then raises NameError, so
  the pending records are neither overwritten by a verdict nor reset to not tested by
  lines 328-330, and no report reaches the export.
\<close>

theorem main_stops_with_pending_records:
  "main shili_hunhe (Some shili_reader) 64 shili_yuming ''4'' (3 / 10) 10 shili_renwu
     = Inl (NameError ''kaiqi_wuran_jiancha'')
   \<and> map (\<lambda>p. dns_wuran (fst p))
        (jizhun_ceshi shili_hunhe shili_yuming ''4'' (3 / 10) 10 True shili_renwu)
      = [Daijiance, Weiceshi, Daijiance]"
  by (simp add: main_never_reports shili_jizhun)

text \<open>
  Claim C8 fails on the program as shipped, by the defect of claim C3. Line 311 raises
  NameError before line 339 sorts anything: the records stay in completion order, here
  with a success rate of 1/3 ahead of a success rate of 1, and no report reaches the
  export. Were the name bound to False, line 339 itself would raise ValueError, three
  sort directions being given for two sort columns.
\<close>

theorem main_stops_before_sorting:
  "main shili_hunhe (Some shili_reader) 64 shili_yuming ''4'' (3 / 10) 10 shili_renwu
     = Inl (NameError ''kaiqi_wuran_jiancha'')
   \<and> \<not> sorted_wrt shuoming_shunxu
        (map fst (jizhun_ceshi shili_hunhe shili_yuming ''4'' (3 / 10) 10 True shili_renwu))
   \<and> main_core shili_hunhe (Some shili_reader) (Some False) 64 shili_yuming ''4'' (3 / 10) 10
        shili_renwu = Inl (ValueError ''Length of ascending (3) != length of by (2)'')"
  by (simp add: main_never_reports shili_jizhun shuoming_shunxu_def main_core_def
      daochu_paixu_def)

end
